theory Spec2Isabelle
  imports Complex_Main "HOL-Library.Multiset"
begin

section \<open>Python values, exceptions and library functions\<close>

text \<open>
  Python integers are modelled as \<open>int\<close> and the values of Python floats as \<open>real\<close>.
  Every place where the interpreter raises (a zero divisor, \<open>math.sqrt\<close> of a negative
  number, \<open>math.asin\<close> outside its domain, access to a missing class attribute, the
  difference of a naive and a timezone-aware \<open>datetime\<close>) is a branch of the model.
  The statistics of \<open>analyze_ab_test\<close> are computed on the reals; the zero tests they
  depend on (\<open>0 / n\<close>, \<open>sqrt 0\<close>, \<open>erf 0\<close>) are exact in floating point as well. Where
  the rounding of a float operation decides an integer or an equality (the split point
  of \<open>start_ab_test\<close>, the improvement percentage of the scenario), the operation is
  rounded as the interpreter rounds it, by \<open>binary64\<close> below.
\<close>

datatype py_error = ZeroDivisionError | ValueError | AttributeError | TypeError

text \<open>
  The services answer with a dictionary \<open>{"success": False, "error": text}\<close> where the
  text is either a literal of the source or \<open>str(e)\<close> of a caught exception.
\<close>

datatype err = Message string | Raised py_error

definition raising :: "py_error + 'a \<Rightarrow> ('a \<Rightarrow> py_error + 'b) \<Rightarrow> py_error + 'b" where
  "raising r k = (case r of Inl e \<Rightarrow> Inl e | Inr v \<Rightarrow> k v)"

definition py_truediv :: "real \<Rightarrow> real \<Rightarrow> py_error + real" where
  "py_truediv a b = (if b = 0 then Inl ZeroDivisionError else Inr (a / b))"

definition math_sqrt :: "real \<Rightarrow> py_error + real" where
  "math_sqrt x = (if x < 0 then Inl ValueError else Inr (sqrt x))"

definition math_asin :: "real \<Rightarrow> py_error + real" where
  "math_asin x = (if x < - 1 \<or> 1 < x then Inl ValueError else Inr (arcsin x))"

text \<open>The error function, by its Maclaurin series (it converges on the whole line).\<close>

definition erf_coeff :: "real \<Rightarrow> nat \<Rightarrow> real" where
  "erf_coeff q n = q ^ n / (fact n * real (2 * n + 1))"

definition math_erf :: "real \<Rightarrow> real" where
  "math_erf x = 2 / sqrt pi * (\<Sum>n. (- 1) ^ n * x ^ (2 * n + 1) / (fact n * real (2 * n + 1)))"

subsection \<open>Binary floating point\<close>

text \<open>
  Python's \<open>float\<close> is IEEE 754 binary64, and \<open>+\<close>, \<open>-\<close>, \<open>*\<close>, \<open>/\<close> (also of two
  integers) return the exact result rounded to the nearest number with a 53-bit
  significand, ties to the even one. \<open>binary64\<close> is that rounding for results in the
  normal range; overflow and subnormal numbers are not modelled.
\<close>

definition round_half_even :: "real \<Rightarrow> int" where
  "round_half_even y =
     (let f = \<lfloor>y\<rfloor>; d = y - of_int f
      in if d < 1 / 2 then f else if 1 / 2 < d then f + 1 else if even f then f else f + 1)"

definition binary64 :: "real \<Rightarrow> real" where
  "binary64 x =
     (if x = 0 then 0
      else let e = \<lfloor>log 2 \<bar>x\<bar>\<rfloor>; ulp = 2 powr of_int (e - 52)
           in sgn x * of_int (round_half_even (\<bar>x\<bar> / ulp)) * ulp)"

section \<open>Data model of the A/B testing service\<close>

datatype TestStatus = DRAFT | RUNNING | COMPLETED | PAUSED | CANCELLED

datatype TestType = MESSAGE_CONTENT | SEND_TIME | SENDER_ID | SUBJECT_LINE

text \<open>
  The columns of \<open>ab_test_campaigns\<close> that the service reads or writes. Column names that
  several tables share (\<open>id\<close>, \<open>user_id\<close>, \<open>name\<close>, \<open>status\<close>) carry the prefix \<open>test_\<close>.
  A timestamp is the instant it denotes, in seconds. \<open>started_at\<close> and \<open>completed_at\<close>
  are columns of type \<open>DateTime(timezone=True)\<close> of a PostgreSQL database
  (\<open>core/config.py\<close>): what a query loads from them is a timezone-aware \<open>datetime\<close>.
\<close>

record ABTestCampaign =
  test_id :: int
  test_user_id :: int
  test_name :: string
  test_type :: TestType
  test_status :: TestStatus
  traffic_split :: real
  test_duration_days :: int
  minimum_sample_size :: int
  confidence_level :: real
  variant_a_recipients :: int
  variant_b_recipients :: int
  variant_a_delivered :: int
  variant_b_delivered :: int
  variant_a_opened :: int
  variant_b_opened :: int
  variant_a_clicked :: int
  variant_b_clicked :: int
  variant_a_replied :: int
  variant_b_replied :: int
  variant_a_conversion_rate :: real
  variant_b_conversion_rate :: real
  statistical_significance :: real
  winner_variant :: "string option"
  started_at :: "real option"
  completed_at :: "real option"

record ABTestVariant =
  variant_id :: int
  variant_campaign_id :: int
  variant_name :: string
  variant_type :: TestType
  message_content :: "string option"
  recipients_count :: int

record ABTestRecipient =
  recipient_id :: int
  recipient_campaign_id :: int
  recipient_variant_id :: int
  recipient_contact_id :: int

text \<open>
  An \<open>ABTestResult\<close> row. The source stores the per-variant metrics and the confidence
  interval as JSON text of a dictionary; the model keeps the dictionary's values.
\<close>

record variant_metrics =
  recipients :: int
  conversions :: int
  conversion_rate :: real

record ABTestResult =
  result_id :: int
  result_campaign_id :: int
  variant_a_metrics :: variant_metrics
  variant_b_metrics :: variant_metrics
  result_statistical_significance :: real
  confidence_interval :: "real \<times> real"
  p_value :: real
  result_effect_size :: real
  result_winner_variant :: "string option"
  result_improvement_percentage :: real
  sample_size :: int
  test_duration_hours :: real

record Contact =
  contact_id :: int
  contact_user_id :: int
  phone :: string


section \<open>Data model of campaigns and messages\<close>

datatype MessageStatus = PENDING | SENT | DELIVERED | FAILED | RECEIVED

datatype CampaignStatus =
  Campaign_DRAFT | Campaign_SCHEDULED | Campaign_ACTIVE | Campaign_SENDING | Campaign_SENT
  | Campaign_FAILED

record Campaign =
  campaign_id :: int
  campaign_status :: CampaignStatus
  sent_at :: "real option"
  total_recipients :: int
  delivered_count :: int
  failed_count :: int

text \<open>
  A row of \<open>messages\<close>. The model class declares the provider's identifier under the
  name \<open>message_id\<close>; its primary key \<open>id\<close> is \<open>message_pk\<close> here.
\<close>

record Message =
  message_pk :: int
  message_campaign_id :: "int option"
  recipient :: string
  content :: string
  message_status :: MessageStatus
  delivered_at :: "real option"
  error_message :: "string option"
  message_id :: "string option"
  is_incoming :: string

section \<open>The persistence layer\<close>

text \<open>
  One SQLAlchemy session: \<open>working\<close> is what the session sees (loaded objects with
  their pending changes, which queries flush before they run), \<open>committed\<close> is what
  the database holds for everybody else. \<open>db.commit()\<close> makes the working state the
  committed one; a session that is closed without it loses the pending changes.
\<close>

record tables =
  ab_test_campaigns :: "ABTestCampaign list"
  ab_test_variants :: "ABTestVariant list"
  ab_test_recipients :: "ABTestRecipient list"
  ab_test_results :: "ABTestResult list"
  contacts :: "Contact list"
  campaigns :: "Campaign list"
  messages :: "Message list"

record session =
  committed :: tables
  working :: tables

definition commit :: "session \<Rightarrow> session" where
  "commit s = s\<lparr>committed := working s\<rparr>"

text \<open>The next value of an autoincrement primary key.\<close>

definition next_id :: "int list \<Rightarrow> int" where
  "next_id ks = fold max ks 0 + 1"

text \<open>\<open>query(...).filter(...).first()\<close>\<close>

definition first :: "('a \<Rightarrow> bool) \<Rightarrow> 'a list \<Rightarrow> 'a option" where
  "first P xs = find P xs"

text \<open>Attribute writes to the loaded object with primary key \<open>k\<close>.\<close>

definition update_test :: "int \<Rightarrow> (ABTestCampaign \<Rightarrow> ABTestCampaign) \<Rightarrow> tables \<Rightarrow> tables" where
  "update_test k f t =
     t\<lparr>ab_test_campaigns := map (\<lambda>c. if test_id c = k then f c else c) (ab_test_campaigns t)\<rparr>"

section \<open>ABTestingService.analyze_ab_test\<close>

definition normal_cdf :: "real \<Rightarrow> real" where
  "normal_cdf x = 0.5 * (1 + math_erf (x / sqrt 2))"

text \<open>The dictionary under the key \<open>"analysis"\<close> of a successful answer.\<close>

record analysis =
  variant_a_rate :: real
  variant_b_rate :: real
  analysis_statistical_significance :: real
  is_significant :: bool
  winner :: "string option"
  improvement_percentage :: real
  effect_size :: real
  ci_lower :: real
  ci_upper :: real

text \<open>
  The intermediate values of the Z-test for proportions (lines 189--209), for callers
  that have checked that neither recipient count is zero.
\<close>

definition rate :: "int \<Rightarrow> int \<Rightarrow> real" where
  "rate conv n = real_of_int conv / real_of_int n"

definition standard_error :: "int \<Rightarrow> int \<Rightarrow> int \<Rightarrow> int \<Rightarrow> py_error + real" where
  "standard_error n1 n2 conv_a conv_b =
     raising (py_truediv (real_of_int (conv_a + conv_b)) (real_of_int (n1 + n2))) (\<lambda>p_pooled.
       math_sqrt (p_pooled * (1 - p_pooled) * (1 / real_of_int n1 + 1 / real_of_int n2)))"

definition z_score_of :: "real \<Rightarrow> real \<Rightarrow> real \<Rightarrow> real" where
  "z_score_of p1 p2 se = (if se > 0 then (p2 - p1) / se else 0)"

definition p_value_of :: "real \<Rightarrow> real" where
  "p_value_of z_score = 2 * (1 - normal_cdf \<bar>z_score\<bar>)"

text \<open>Lines 220--232: the winner and the improvement percentage.\<close>

definition determine_winner :: "bool \<Rightarrow> real \<Rightarrow> real \<Rightarrow> py_error + (string option \<times> real)" where
  "determine_winner significant rate_a rate_b =
     (if significant then
        (if rate_b > rate_a then
           raising (py_truediv (rate_b - rate_a) rate_a) (\<lambda>q. Inr (Some ''B'', q * 100))
         else if rate_a > rate_b then
           raising (py_truediv (rate_a - rate_b) rate_b) (\<lambda>q. Inr (Some ''A'', q * 100))
         else Inr (None, 0))
      else Inr (Some ''inconclusive'', 0))"

text \<open>Lines 188--232, in the order of the source.\<close>

definition compute_analysis :: "real \<Rightarrow> int \<Rightarrow> int \<Rightarrow> int \<Rightarrow> int \<Rightarrow> py_error + analysis" where
  "compute_analysis confidence n1 n2 conv_a conv_b =
     (let rate_a = rate conv_a n1; rate_b = rate conv_b n2; p1 = rate_a; p2 = rate_b in
      raising (standard_error n1 n2 conv_a conv_b) (\<lambda>se.
      let z_score = z_score_of p1 p2 se;
          p_val = p_value_of z_score;
          significant = (p_val < 1 - confidence) in
      raising (math_sqrt p2) (\<lambda>s2. raising (math_asin s2) (\<lambda>a2.
      raising (math_sqrt p1) (\<lambda>s1. raising (math_asin s1) (\<lambda>a1.
      let effect = 2 * (a2 - a1);
          diff = p2 - p1;
          margin_error = 1.96 * se in
      raising (determine_winner significant rate_a rate_b) (\<lambda>(w, improvement).
        Inr \<lparr>variant_a_rate = rate_a, variant_b_rate = rate_b,
             analysis_statistical_significance = p_val, is_significant = significant,
             winner = w, improvement_percentage = improvement, effect_size = effect,
             ci_lower = diff - margin_error, ci_upper = diff + margin_error\<rparr>)))))))"

text \<open>
  \<open>_calculate_test_duration\<close>, in hours, for the test that \<open>analyze_ab_test\<close> has loaded.
  The difference of the two columns (line 293) is a difference of two timezone-aware
  values. For a test that has been started and not completed, line 296 subtracts the
  timezone-aware \<open>started_at\<close> from \<open>datetime.utcnow()\<close>, which is naive: the
  interpreter raises \<open>TypeError\<close>, whatever the clock \<open>now\<close> shows.
\<close>

definition calculate_test_duration :: "real \<Rightarrow> ABTestCampaign \<Rightarrow> py_error + real" where
  "calculate_test_duration now campaign =
     (case (started_at campaign, completed_at campaign) of
        (Some s, Some c) \<Rightarrow> Inr ((c - s) / 3600)
      | (Some s, None) \<Rightarrow> Inl TypeError
      | (None, _) \<Rightarrow> Inr 0)"

text \<open>The \<open>ABTestResult\<close> of lines 235--258, for the duration \<open>hours\<close>.\<close>

definition result_row :: "real \<Rightarrow> int \<Rightarrow> ABTestCampaign \<Rightarrow> analysis \<Rightarrow> tables \<Rightarrow> ABTestResult" where
  "result_row hours cid campaign a t =
     \<lparr>result_id = next_id (map result_id (ab_test_results t)),
      result_campaign_id = cid,
      variant_a_metrics = \<lparr>recipients = variant_a_recipients campaign,
         conversions = variant_a_opened campaign, conversion_rate = variant_a_rate a\<rparr>,
      variant_b_metrics = \<lparr>recipients = variant_b_recipients campaign,
         conversions = variant_b_opened campaign, conversion_rate = variant_b_rate a\<rparr>,
      result_statistical_significance = analysis_statistical_significance a,
      confidence_interval = (ci_lower a, ci_upper a),
      p_value = analysis_statistical_significance a,
      result_effect_size = effect_size a,
      result_winner_variant = winner a,
      result_improvement_percentage = improvement_percentage a,
      sample_size = variant_a_recipients campaign + variant_b_recipients campaign,
      test_duration_hours = hours\<rparr>"

text \<open>
  \<open>analyze_ab_test\<close>: the answer and the session afterwards. An exception in the
  statistics (lines 188--232) or, after them, in the duration that the result row is
  built with (line 257) is caught by the handler at lines 282--284, which answers with
  the failure; nothing has been added to the session at that point.
\<close>

definition analyze_ab_test :: "real \<Rightarrow> int \<Rightarrow> session \<Rightarrow> (err + analysis) \<times> session" where
  "analyze_ab_test now cid s =
     (case first (\<lambda>c. test_id c = cid) (ab_test_campaigns (working s)) of
        None \<Rightarrow> (Inl (Message ''Campaign not found''), s)
      | Some campaign \<Rightarrow>
          if variant_a_recipients campaign = 0 \<or> variant_b_recipients campaign = 0
          then (Inl (Message ''Insufficient data for analysis''), s)
          else
            (case compute_analysis (confidence_level campaign)
                    (variant_a_recipients campaign) (variant_b_recipients campaign)
                    (variant_a_opened campaign) (variant_b_opened campaign) of
               Inl e \<Rightarrow> (Inl (Raised e), s)
             | Inr a \<Rightarrow>
                 (case calculate_test_duration now campaign of
                    Inl e \<Rightarrow> (Inl (Raised e), s)
                  | Inr hours \<Rightarrow>
                      let t = working s;
                          t1 = t\<lparr>ab_test_results :=
                                 ab_test_results t @ [result_row hours cid campaign a t]\<rparr>;
                          t2 = update_test (test_id campaign)
                                 (\<lambda>c. c\<lparr>statistical_significance := analysis_statistical_significance a,
                                        winner_variant := winner a\<rparr>) t1
                      in (Inr a, commit (s\<lparr>working := t2\<rparr>)))))"


text \<open>
  Lines 189--190 and 227 in binary64: the two rates and
  \<open>((rate_b - rate_a) / rate_a) * 100\<close>.
\<close>

definition improvement_binary64 :: "int \<Rightarrow> int \<Rightarrow> int \<Rightarrow> int \<Rightarrow> real" where
  "improvement_binary64 conv_a n1 conv_b n2 =
     (let rate_a = binary64 (real_of_int conv_a / real_of_int n1);
          rate_b = binary64 (real_of_int conv_b / real_of_int n2)
      in binary64 (binary64 (binary64 (rate_b - rate_a) / rate_a) * 100))"

section \<open>ABTestingService.create_ab_test\<close>

text \<open>
  The dictionary \<open>campaign_data.dict()\<close> of the request schema \<open>ABTestCampaignCreate\<close>:
  every key is present (the schema fills the defaults), no field carries a validator.
\<close>

record variant_data =
  data_variant_name :: string
  data_message_content :: "string option"

record test_data =
  data_name :: string
  data_test_type :: TestType
  data_traffic_split :: real
  data_test_duration_days :: int
  data_minimum_sample_size :: int
  data_confidence_level :: real
  data_variants :: "variant_data list"

definition new_campaign :: "int \<Rightarrow> int \<Rightarrow> test_data \<Rightarrow> ABTestCampaign" where
  "new_campaign k user test =
     \<lparr>test_id = k, test_user_id = user, test_name = data_name test,
      test_type = data_test_type test, test_status = DRAFT,
      traffic_split = data_traffic_split test,
      test_duration_days = data_test_duration_days test,
      minimum_sample_size = data_minimum_sample_size test,
      confidence_level = data_confidence_level test,
      variant_a_recipients = 0, variant_b_recipients = 0,
      variant_a_delivered = 0, variant_b_delivered = 0,
      variant_a_opened = 0, variant_b_opened = 0,
      variant_a_clicked = 0, variant_b_clicked = 0,
      variant_a_replied = 0, variant_b_replied = 0,
      variant_a_conversion_rate = 0, variant_b_conversion_rate = 0,
      statistical_significance = 0, winner_variant = None,
      started_at = None, completed_at = None\<rparr>"

definition add_variant :: "int \<Rightarrow> TestType \<Rightarrow> variant_data \<Rightarrow> tables \<Rightarrow> tables" where
  "add_variant cid ty v t =
     t\<lparr>ab_test_variants := ab_test_variants t @
        [\<lparr>variant_id = next_id (map variant_id (ab_test_variants t)),
          variant_campaign_id = cid, variant_name = data_variant_name v,
          variant_type = ty, message_content = data_message_content v,
          recipients_count = 0\<rparr>]\<rparr>"

text \<open>The id that the database gives to the next row of \<open>ab_test_campaigns\<close>.\<close>

definition new_test_id :: "tables \<Rightarrow> int" where
  "new_test_id t = next_id (map test_id (ab_test_campaigns t))"

text \<open>
  \<open>create_ab_test\<close> answers with the new campaign's id. The campaign is committed
  before the loop over the variants, the variants after it.
\<close>

definition create_ab_test :: "int \<Rightarrow> test_data \<Rightarrow> session \<Rightarrow> (err + int) \<times> session" where
  "create_ab_test user test s =
     (let t = working s;
          k = new_test_id t;
          s1 = commit (s\<lparr>working := t\<lparr>ab_test_campaigns :=
                  ab_test_campaigns t @ [new_campaign k user test]\<rparr>\<rparr>);
          t2 = fold (add_variant k (data_test_type test)) (data_variants test) (working s1)
      in (Inr k, commit (s1\<lparr>working := t2\<rparr>)))"

section \<open>ABTestingService.start_ab_test\<close>

text \<open>Decimal text of an integer, as an f-string prints it.\<close>

fun str_nat :: "nat \<Rightarrow> string" where
  "str_nat n =
     (if n < 10 then [char_of (48 + n)] else str_nat (n div 10) @ [char_of (48 + n mod 10)])"

declare str_nat.simps [simp del]

definition str_int :: "int \<Rightarrow> string" where
  "str_int k = (if k < 0 then CHR ''-'' # str_nat (nat (- k)) else str_nat (nat k))"

text \<open>\<open>int(x)\<close> of a float truncates towards zero.\<close>

definition py_int :: "real \<Rightarrow> int" where
  "py_int x = (if 0 \<le> x then \<lfloor>x\<rfloor> else \<lceil>x\<rceil>)"

text \<open>
  The slices \<open>xs[:k]\<close> and \<open>xs[k:]\<close>: a negative bound counts from the end, and a bound
  beyond either end is clamped.
\<close>

definition slice_bound :: "'a list \<Rightarrow> int \<Rightarrow> nat" where
  "slice_bound xs k =
     (if k < 0 then nat (max (int (length xs) + k) 0) else nat (min k (int (length xs))))"

definition slice_to :: "int \<Rightarrow> 'a list \<Rightarrow> 'a list" where
  "slice_to k xs = take (slice_bound xs k) xs"

definition slice_from :: "int \<Rightarrow> 'a list \<Rightarrow> 'a list" where
  "slice_from k xs = drop (slice_bound xs k) xs"

text \<open>
  \<open>random.shuffle\<close>: for \<open>i\<close> from \<open>len(x) - 1\<close> down to \<open>1\<close>, exchange \<open>x[i]\<close> with
  \<open>x[j]\<close> for a random \<open>j\<close> below \<open>i + 1\<close>. The random source is the parameter
  \<open>rnd\<close>, whose value at \<open>i\<close> is taken modulo \<open>i + 1\<close>.
\<close>

definition swap :: "nat \<Rightarrow> nat \<Rightarrow> 'a list \<Rightarrow> 'a list" where
  "swap i j xs = xs[i := xs ! j, j := xs ! i]"

primrec shuffle_from :: "nat \<Rightarrow> (nat \<Rightarrow> nat) \<Rightarrow> 'a list \<Rightarrow> 'a list" where
  "shuffle_from 0 rnd xs = xs"
| "shuffle_from (Suc i) rnd xs =
     shuffle_from i rnd (swap (Suc i) (rnd (Suc i) mod Suc (Suc i)) xs)"

definition shuffle :: "(nat \<Rightarrow> nat) \<Rightarrow> 'a list \<Rightarrow> 'a list" where
  "shuffle rnd xs = shuffle_from (length xs - 1) rnd xs"

definition add_recipient :: "int \<Rightarrow> int \<Rightarrow> Contact \<Rightarrow> tables \<Rightarrow> tables" where
  "add_recipient cid vid contact t =
     t\<lparr>ab_test_recipients := ab_test_recipients t @
        [\<lparr>recipient_id = next_id (map recipient_id (ab_test_recipients t)),
          recipient_campaign_id = cid, recipient_variant_id = vid,
          recipient_contact_id = contact_id contact\<rparr>]\<rparr>"

text \<open>What a recipient row records: the test, the variant and the contact.\<close>

definition assignment :: "ABTestRecipient \<Rightarrow> int \<times> int \<times> int" where
  "assignment r = (recipient_campaign_id r, recipient_variant_id r, recipient_contact_id r)"

definition update_variant :: "int \<Rightarrow> (ABTestVariant \<Rightarrow> ABTestVariant) \<Rightarrow> tables \<Rightarrow> tables" where
  "update_variant k f t =
     t\<lparr>ab_test_variants := map (\<lambda>v. if variant_id v = k then f v else v) (ab_test_variants t)\<rparr>"

text \<open>
  The two groups of lines 87--93. \<open>traffic_split\<close> is a float, the one nearest to the
  decimal of the request, and the product of line 91 is a float product: the exact
  product of the length and that float, rounded. (A product below the normal range is
  a positive number below 1 for \<open>binary64\<close> as for the interpreter: the split point is 0
  for both.)
\<close>

definition split_point_of :: "ABTestCampaign \<Rightarrow> 'a list \<Rightarrow> int" where
  "split_point_of campaign cs =
     py_int (binary64 (real (length cs) * traffic_split campaign))"

definition variant_a_contacts :: "(nat \<Rightarrow> nat) \<Rightarrow> ABTestCampaign \<Rightarrow> 'a list \<Rightarrow> 'a list" where
  "variant_a_contacts rnd campaign cs = slice_to (split_point_of campaign cs) (shuffle rnd cs)"

definition variant_b_contacts :: "(nat \<Rightarrow> nat) \<Rightarrow> ABTestCampaign \<Rightarrow> 'a list \<Rightarrow> 'a list" where
  "variant_b_contacts rnd campaign cs = slice_from (split_point_of campaign cs) (shuffle rnd cs)"

text \<open>
  \<open>start_ab_test\<close>. The status and the start time are written to the loaded campaign
  (lines 76--77) before the contacts are counted; the two early returns after that
  (lines 85 and 104) leave the session without a commit and without a rollback.
\<close>

definition start_ab_test ::
  "(nat \<Rightarrow> nat) \<Rightarrow> real \<Rightarrow> int \<Rightarrow> int \<Rightarrow> session \<Rightarrow> (err + string) \<times> session" where
  "start_ab_test rnd now cid user s =
     (case first (\<lambda>c. test_id c = cid \<and> test_user_id c = user) (ab_test_campaigns (working s)) of
        None \<Rightarrow> (Inl (Message ''Campaign not found''), s)
      | Some campaign \<Rightarrow>
          if test_status campaign \<noteq> DRAFT
          then (Inl (Message ''Campaign is not in draft status''), s)
          else
            let t1 = update_test cid (\<lambda>c. c\<lparr>test_status := RUNNING, started_at := Some now\<rparr>)
                       (working s);
                cs = filter (\<lambda>c. contact_user_id c = user) (contacts t1)
            in if int (length cs) < minimum_sample_size campaign
               then (Inl (Message (''Not enough contacts. Need ''
                           @ str_int (minimum_sample_size campaign) @ '', have ''
                           @ str_int (int (length cs)))),
                     s\<lparr>working := t1\<rparr>)
               else
                 let group_a = variant_a_contacts rnd campaign cs;
                     group_b = variant_b_contacts rnd campaign cs;
                     variants = filter (\<lambda>v. variant_campaign_id v = cid) (ab_test_variants t1)
                 in (case (find (\<lambda>v. variant_name v = ''A'') variants,
                           find (\<lambda>v. variant_name v = ''B'') variants) of
                       (Some variant_a, Some variant_b) \<Rightarrow>
                         let t2 = fold (add_recipient cid (variant_id variant_a)) group_a t1;
                             t3 = fold (add_recipient cid (variant_id variant_b)) group_b t2;
                             t4 = update_variant (variant_id variant_a)
                                    (\<lambda>v. v\<lparr>recipients_count := int (length group_a)\<rparr>) t3;
                             t5 = update_variant (variant_id variant_b)
                                    (\<lambda>v. v\<lparr>recipients_count := int (length group_b)\<rparr>) t4;
                             t6 = update_test cid
                                    (\<lambda>c. c\<lparr>variant_a_recipients := int (length group_a),
                                           variant_b_recipients := int (length group_b)\<rparr>) t5
                         in (Inr ''A/B test started successfully'', commit (s\<lparr>working := t6\<rparr>))
                     | _ \<Rightarrow> (Inl (Message ''Variants not found''), s\<lparr>working := t1\<rparr>)))"

section \<open>ABTestingService.update_ab_test_metrics\<close>

text \<open>
  \<open>metrics_data\<close> in the order of its items. The model covers dictionaries with integer
  values whose keys name a counter column, one of the two integer settings, or no
  attribute of the campaign at all (\<open>hasattr\<close> is false and the item is skipped).
\<close>

definition setattr_campaign :: "string \<Rightarrow> int \<Rightarrow> ABTestCampaign \<Rightarrow> ABTestCampaign" where
  "setattr_campaign key v c =
     (if key = ''variant_a_recipients'' then c\<lparr>variant_a_recipients := v\<rparr>
      else if key = ''variant_b_recipients'' then c\<lparr>variant_b_recipients := v\<rparr>
      else if key = ''variant_a_delivered'' then c\<lparr>variant_a_delivered := v\<rparr>
      else if key = ''variant_b_delivered'' then c\<lparr>variant_b_delivered := v\<rparr>
      else if key = ''variant_a_opened'' then c\<lparr>variant_a_opened := v\<rparr>
      else if key = ''variant_b_opened'' then c\<lparr>variant_b_opened := v\<rparr>
      else if key = ''variant_a_clicked'' then c\<lparr>variant_a_clicked := v\<rparr>
      else if key = ''variant_b_clicked'' then c\<lparr>variant_b_clicked := v\<rparr>
      else if key = ''variant_a_replied'' then c\<lparr>variant_a_replied := v\<rparr>
      else if key = ''variant_b_replied'' then c\<lparr>variant_b_replied := v\<rparr>
      else if key = ''test_duration_days'' then c\<lparr>test_duration_days := v\<rparr>
      else if key = ''minimum_sample_size'' then c\<lparr>minimum_sample_size := v\<rparr>
      else c)"

definition set_metrics :: "(string \<times> int) list \<Rightarrow> ABTestCampaign \<Rightarrow> ABTestCampaign" where
  "set_metrics metrics_data c = fold (\<lambda>(key, v). setattr_campaign key v) metrics_data c"

definition calculate_conversion_rates :: "ABTestCampaign \<Rightarrow> ABTestCampaign" where
  "calculate_conversion_rates c =
     (let c1 = (if variant_a_recipients c > 0
                then c\<lparr>variant_a_conversion_rate := rate (variant_a_opened c) (variant_a_recipients c)\<rparr>
                else c)
      in (if variant_b_recipients c1 > 0
          then c1\<lparr>variant_b_conversion_rate := rate (variant_b_opened c1) (variant_b_recipients c1)\<rparr>
          else c1))"

definition update_ab_test_metrics ::
  "int \<Rightarrow> (string \<times> int) list \<Rightarrow> session \<Rightarrow> (err + unit) \<times> session" where
  "update_ab_test_metrics cid metrics_data s =
     (case first (\<lambda>c. test_id c = cid) (ab_test_campaigns (working s)) of
        None \<Rightarrow> (Inl (Message ''Campaign not found''), s)
      | Some campaign \<Rightarrow>
          (Inr (), commit (s\<lparr>working := update_test cid
                     (\<lambda>c. calculate_conversion_rates (set_metrics metrics_data c)) (working s)\<rparr>)))"

text \<open>The ten per-variant counters of a test, by the name of their column.\<close>

definition counter_names :: "string list" where
  "counter_names =
     [''variant_a_recipients'', ''variant_b_recipients'', ''variant_a_delivered'',
      ''variant_b_delivered'', ''variant_a_opened'', ''variant_b_opened'',
      ''variant_a_clicked'', ''variant_b_clicked'', ''variant_a_replied'',
      ''variant_b_replied'']"

definition counter_value :: "string \<Rightarrow> ABTestCampaign \<Rightarrow> int" where
  "counter_value key c =
     (if key = ''variant_a_recipients'' then variant_a_recipients c
      else if key = ''variant_b_recipients'' then variant_b_recipients c
      else if key = ''variant_a_delivered'' then variant_a_delivered c
      else if key = ''variant_b_delivered'' then variant_b_delivered c
      else if key = ''variant_a_opened'' then variant_a_opened c
      else if key = ''variant_b_opened'' then variant_b_opened c
      else if key = ''variant_a_clicked'' then variant_a_clicked c
      else if key = ''variant_b_clicked'' then variant_b_clicked c
      else if key = ''variant_a_replied'' then variant_a_replied c
      else if key = ''variant_b_replied'' then variant_b_replied c
      else 0)"

section \<open>The delivery-report webhook (routers/webhooks.py)\<close>

text \<open>The parsed body of the request: a dictionary with text values.\<close>

type_synonym webhook_data = "string \<rightharpoonup> string"

text \<open>\<open>a or b\<close> on optional text: \<open>None\<close> and the empty text are false.\<close>

definition py_or :: "string option \<Rightarrow> string option \<Rightarrow> string option" where
  "py_or a b = (case a of None \<Rightarrow> b | Some v \<Rightarrow> if v = [] then b else a)"

text \<open>\<open>str.lower()\<close> on the letters \<open>A\<close> to \<open>Z\<close>; other characters stay.\<close>

definition lower :: "string \<Rightarrow> string" where
  "lower st = map (\<lambda>c. let n = (of_char c :: nat) in
                         if 65 \<le> n \<and> n \<le> 90 then char_of (n + 32) else c) st"

definition status_mapping :: "string \<Rightarrow> MessageStatus" where
  "status_mapping st =
     (if st = ''delivered'' then SENT
      else if st = ''sent'' then SENT
      else if st = ''failed'' then FAILED
      else if st = ''undelivered'' then FAILED
      else if st = ''pending'' then PENDING
      else if st = ''queued'' then PENDING
      else PENDING)"

text \<open>
  The attribute \<open>Message.name\<close> of the model class, for the text columns it declares.
  The class has no attribute \<open>provider_message_id\<close>: the provider's identifier is the
  column \<open>message_id\<close>. Reading a name the class does not declare raises.
\<close>

definition getattr_Message :: "string \<Rightarrow> py_error + (Message \<Rightarrow> string option)" where
  "getattr_Message name =
     (if name = ''message_id'' then Inr message_id
      else if name = ''error_message'' then Inr error_message
      else if name = ''recipient'' then Inr (\<lambda>m. Some (recipient m))
      else if name = ''content'' then Inr (\<lambda>m. Some (content m))
      else if name = ''is_incoming'' then Inr (\<lambda>m. Some (is_incoming m))
      else Inl AttributeError)"

definition update_message :: "int \<Rightarrow> (Message \<Rightarrow> Message) \<Rightarrow> tables \<Rightarrow> tables" where
  "update_message k f t =
     t\<lparr>messages := map (\<lambda>m. if message_pk m = k then f m else m) (messages t)\<rparr>"

definition update_campaign :: "int \<Rightarrow> (Campaign \<Rightarrow> Campaign) \<Rightarrow> tables \<Rightarrow> tables" where
  "update_campaign k f t =
     t\<lparr>campaigns := map (\<lambda>c. if campaign_id c = k then f c else c) (campaigns t)\<rparr>"

text \<open>\<open>query(Message).filter(...).count()\<close>\<close>

definition count :: "('a \<Rightarrow> bool) \<Rightarrow> 'a list \<Rightarrow> int" where
  "count P xs = int (length (filter P xs))"

definition sent_count_of :: "int \<Rightarrow> tables \<Rightarrow> int" where
  "sent_count_of k t =
     count (\<lambda>m. message_campaign_id m = Some k \<and> message_status m = SENT) (messages t)"

definition failed_count_of :: "int \<Rightarrow> tables \<Rightarrow> int" where
  "failed_count_of k t =
     count (\<lambda>m. message_campaign_id m = Some k \<and> message_status m = FAILED) (messages t)"

definition total_messages_of :: "int \<Rightarrow> tables \<Rightarrow> int" where
  "total_messages_of k t = count (\<lambda>m. message_campaign_id m = Some k) (messages t)"

text \<open>Lines 69--95: the statistics of the campaign are counted again from its messages.\<close>

definition recalculate_campaign :: "real \<Rightarrow> Campaign \<Rightarrow> tables \<Rightarrow> tables" where
  "recalculate_campaign now campaign t =
     (let k = campaign_id campaign;
          sent_count = sent_count_of k t;
          failed_count = failed_count_of k t;
          total_messages = total_messages_of k t
      in update_campaign k
           (\<lambda>c. let c1 = c\<lparr>delivered_count := sent_count, failed_count := failed_count\<rparr>
                 in if sent_count + failed_count \<ge> total_messages
                    then c1\<lparr>campaign_status := Campaign_SENT, sent_at := Some now\<rparr>
                    else c1) t)"

text \<open>
  Lines 33--60 with the name of the column that joins a callback to its message as a
  parameter \<open>attr\<close>: the message the callback is about and its internal status, or the
  \<open>"message"\<close> of the error answer. An exception is caught by the outer handler at lines
  100--102, which answers \<open>"Internal server error"\<close>.
\<close>

definition find_reported_message ::
  "string \<Rightarrow> webhook_data \<Rightarrow> session \<Rightarrow> err + (Message \<times> MessageStatus)" where
  "find_reported_message attr data s =
     (let provider_id = py_or (py_or (data ''message_id'') (data ''sid'')) (data ''id'');
          status = py_or (data ''status'') (data ''delivery_status'')
      in case (provider_id, status) of
           (Some mid, Some st) \<Rightarrow>
             if mid = [] \<or> st = [] then Inl (Message ''Missing required fields'')
             else
               let internal_status = status_mapping (lower st) in
               (case getattr_Message attr of
                  Inl e \<Rightarrow> Inl (Message ''Internal server error'')
                | Inr column \<Rightarrow>
                    (case first (\<lambda>m. column m = Some mid) (messages (working s)) of
                       None \<Rightarrow> Inl (Message ''Message not found'')
                     | Some message \<Rightarrow> Inr (message, internal_status)))
         | _ \<Rightarrow> Inl (Message ''Missing required fields''))"

text \<open>Lines 62--65: the attributes written to the message.\<close>

definition set_status :: "webhook_data \<Rightarrow> real \<Rightarrow> MessageStatus \<Rightarrow> Message \<Rightarrow> Message" where
  "set_status data now internal_status m =
     m\<lparr>message_status := internal_status,
       delivered_at := (if internal_status = SENT then Some now else None),
       error_message := (if internal_status = FAILED then data ''error_message'' else None)\<rparr>"

text \<open>Lines 62--95: the update of the message and of its campaign, each with its commit.\<close>

definition record_status ::
  "webhook_data \<Rightarrow> real \<Rightarrow> Message \<Rightarrow> MessageStatus \<Rightarrow> session \<Rightarrow> session" where
  "record_status data now message internal_status s =
     (let t1 = update_message (message_pk message) (set_status data now internal_status)
                 (working s);
          s1 = commit (s\<lparr>working := t1\<rparr>)
      in case first (\<lambda>c. Some (campaign_id c) = message_campaign_id message) (campaigns t1) of
           None \<Rightarrow> s1
         | Some campaign \<Rightarrow> commit (s1\<lparr>working := recalculate_campaign now campaign t1\<rparr>))"

text \<open>
  The handler: the \<open>"message"\<close> of the returned dictionary, on the left when its
  \<open>"status"\<close> is \<open>"error"\<close>, and the session afterwards.
\<close>

definition delivery_report_by ::
  "string \<Rightarrow> webhook_data \<Rightarrow> real \<Rightarrow> session \<Rightarrow> (err + string) \<times> session" where
  "delivery_report_by attr data now s =
     (case find_reported_message attr data s of
        Inl e \<Rightarrow> (Inl e, s)
      | Inr (message, internal_status) \<Rightarrow>
          (Inr ''Status updated'', record_status data now message internal_status s))"

text \<open>The handler as the source has it: the join is on \<open>Message.provider_message_id\<close>.\<close>

definition handle_delivery_report ::
  "webhook_data \<Rightarrow> real \<Rightarrow> session \<Rightarrow> (err + string) \<times> session" where
  "handle_delivery_report = delivery_report_by ''provider_message_id''"

text \<open>The counters of the campaigns, by campaign.\<close>

definition campaign_counters :: "tables \<Rightarrow> (int \<times> int \<times> int) list" where
  "campaign_counters t = map (\<lambda>c. (campaign_id c, delivered_count c, failed_count c)) (campaigns t)"

text \<open>What the counts of a campaign depend on.\<close>

definition status_view :: "tables \<Rightarrow> (int option \<times> MessageStatus) list" where
  "status_view t = map (\<lambda>m. (message_campaign_id m, message_status m)) (messages t)"

section \<open>SMSService.send_sms and send_bulk_sms\<close>

datatype SmsProvider = TWILIO | AWS_SNS | VONAGE | MOCK

text \<open>One entry of the input list: \<open>{"phone": ..., "message": ..., "sender_id": ...}\<close>.\<close>

record sms =
  sms_phone :: string
  sms_message :: string
  sms_sender_id :: "string option"

text \<open>
  The dictionary that \<open>send_sms\<close> returns; \<open>send_bulk_sms\<close> adds the key \<open>"phone"\<close>.
  A key the dictionary does not have is \<open>None\<close>.
\<close>

record outcome =
  success :: bool
  outcome_message_id :: "string option"
  outcome_error :: "string option"
  outcome_status :: string
  cost :: "real option"
  provider_name :: "string option"
  outcome_phone :: "string option"

text \<open>
  What the world answers to one call of \<open>send_sms\<close>: the HTTP exchange with Twilio (a
  response with its status code and the \<open>sid\<close> of its body, or an exception such as a
  timeout), the clock, the random number of the mock provider and \<open>hash(phone) % 10000\<close>.
\<close>

datatype http_reply = Response nat "string option" | HttpException string

record call_env =
  http :: http_reply
  clock :: int
  random :: real
  phone_hash :: nat

definition is_digit :: "char \<Rightarrow> bool" where
  "is_digit c = (let n = (of_char c :: nat) in 48 \<le> n \<and> n \<le> 57)"

definition validate_phone_number :: "string \<Rightarrow> bool" where
  "validate_phone_number p =
     (let cleaned = filter is_digit p in
      if length cleaned < 10 \<or> length cleaned > 15 then False
      else if cleaned \<noteq> [] \<and> (\<forall>c \<in> set cleaned. c = CHR ''0'') then False
      else if cleaned \<noteq> [] \<and> (\<forall>c \<in> set cleaned. c = CHR ''1'') then False
      else if cleaned = ''1234567890'' then False
      else True)"

definition failed_outcome :: "string \<Rightarrow> outcome" where
  "failed_outcome e =
     \<lparr>success = False, outcome_message_id = None, outcome_error = Some e,
      outcome_status = ''failed'', cost = None, provider_name = None, outcome_phone = None\<rparr>"

definition sent_outcome :: "string option \<Rightarrow> real \<Rightarrow> string \<Rightarrow> outcome" where
  "sent_outcome mid c p =
     \<lparr>success = True, outcome_message_id = mid, outcome_error = None,
      outcome_status = ''sent'', cost = Some c, provider_name = Some p, outcome_phone = None\<rparr>"

definition send_via_twilio :: "call_env \<Rightarrow> outcome" where
  "send_via_twilio env =
     (case http env of
        Response code sid \<Rightarrow>
          if code = 200 \<or> code = 201 then sent_outcome sid 0.0075 ''twilio''
          else failed_outcome (''Twilio Error: '' @ str_nat code)
      | HttpException e \<Rightarrow> failed_outcome (''Twilio API Error: '' @ e))"

definition send_mock :: "call_env \<Rightarrow> outcome" where
  "send_mock env =
     (if random env < 0.95
      then sent_outcome (Some (''mock-'' @ str_int (clock env) @ ''-''
                               @ str_nat (phone_hash env mod 10000))) 0.01 ''mock''
      else failed_outcome ''Mock delivery failure'')"

definition send_sms :: "SmsProvider \<Rightarrow> call_env \<Rightarrow> string \<Rightarrow> outcome" where
  "send_sms provider env p =
     (if \<not> validate_phone_number p then failed_outcome ''Invalid phone number format''
      else case provider of
             TWILIO \<Rightarrow> send_via_twilio env
           | AWS_SNS \<Rightarrow> sent_outcome (Some (''aws-'' @ str_int (clock env))) 0.00645 ''aws_sns''
           | VONAGE \<Rightarrow> sent_outcome (Some (''vonage-'' @ str_int (clock env))) 0.005 ''vonage''
           | MOCK \<Rightarrow> send_mock env)"

text \<open>
  \<open>asyncio.gather(*tasks, return_exceptions=True)\<close> yields, in the order of the tasks,
  the value a task returned or the exception it raised (on the left, as its text).
  Lines 181--193 turn each into one record that carries the phone of its message.
\<close>

definition record_result :: "string + outcome \<Rightarrow> sms \<Rightarrow> outcome" where
  "record_result result msg =
     (case result of
        Inl e \<Rightarrow> (failed_outcome e)\<lparr>outcome_phone := Some (sms_phone msg)\<rparr>
      | Inr r \<Rightarrow> r\<lparr>outcome_phone := Some (sms_phone msg)\<rparr>)"

definition batch_size :: nat where
  "batch_size = 10"

text \<open>
  The loop of lines 174--196 over \<open>range(0, len(messages), batch_size)\<close>, for any task
  function; \<open>task k msg\<close> is the result of the task for the message at position \<open>k\<close>.
\<close>

function send_batches ::
  "(nat \<Rightarrow> sms \<Rightarrow> string + outcome) \<Rightarrow> sms list \<Rightarrow> nat \<Rightarrow> outcome list \<Rightarrow> outcome list" where
  "send_batches task msgs i results =
     (if i < length msgs then
        let batch = take batch_size (drop i msgs);
            batch_results = map (\<lambda>j. task (i + j) (batch ! j)) [0..<length batch]
        in send_batches task msgs (i + batch_size)
             (results @ map (\<lambda>(j, result). record_result result (batch ! j))
                            (enumerate 0 batch_results))
      else results)"
  by pat_completeness auto
termination
  by (relation "measure (\<lambda>(task, msgs, i, results). length msgs - i)")
     (auto simp: batch_size_def)

declare send_batches.simps [simp del]

definition send_bulk_sms_with :: "(nat \<Rightarrow> sms \<Rightarrow> string + outcome) \<Rightarrow> sms list \<Rightarrow> outcome list" where
  "send_bulk_sms_with task msgs = send_batches task msgs 0 []"

text \<open>
  The tasks of the source are calls of \<open>send_sms\<close>, which catches every exception of
  the provider call itself and returns the failure as a dictionary.
\<close>

definition send_bulk_sms :: "SmsProvider \<Rightarrow> (nat \<Rightarrow> call_env) \<Rightarrow> sms list \<Rightarrow> outcome list" where
  "send_bulk_sms provider env msgs =
     send_bulk_sms_with (\<lambda>k msg. Inr (send_sms provider (env k) (sms_phone msg))) msgs"

section \<open>Concrete states for the scenarios\<close>

definition empty_tables :: tables where
  "empty_tables =
     \<lparr>ab_test_campaigns = [], ab_test_variants = [], ab_test_recipients = [],
      ab_test_results = [], contacts = [], campaigns = [], messages = []\<rparr>"

text \<open>A session just opened on the database \<open>t\<close>.\<close>

definition session_on :: "tables \<Rightarrow> session" where
  "session_on t = \<lparr>committed = t, working = t\<rparr>"

definition two_variants :: "variant_data list" where
  "two_variants =
     [\<lparr>data_variant_name = ''A'', data_message_content = Some ''Hello''\<rparr>,
      \<lparr>data_variant_name = ''B'', data_message_content = Some ''Hi there''\<rparr>]"

definition sample_test_data :: "real \<Rightarrow> int \<Rightarrow> variant_data list \<Rightarrow> test_data" where
  "sample_test_data split minimum vs =
     \<lparr>data_name = ''Greeting'', data_test_type = MESSAGE_CONTENT, data_traffic_split = split,
      data_test_duration_days = 7, data_minimum_sample_size = minimum,
      data_confidence_level = 0.95, data_variants = vs\<rparr>"

text \<open>
  Test 1 of user 1 with the given confidence level, recipient counts and opens of
  its two variants, and the database that holds only this test.
\<close>

definition measured_test :: "real \<Rightarrow> int \<Rightarrow> int \<Rightarrow> int \<Rightarrow> int \<Rightarrow> ABTestCampaign" where
  "measured_test cl n1 n2 conv_a conv_b =
     (new_campaign 1 1 (sample_test_data 0.5 100 two_variants))
       \<lparr>test_status := RUNNING, confidence_level := cl,
        variant_a_recipients := n1, variant_b_recipients := n2,
        variant_a_opened := conv_a, variant_b_opened := conv_b\<rparr>"

definition measured_session :: "real \<Rightarrow> int \<Rightarrow> int \<Rightarrow> int \<Rightarrow> int \<Rightarrow> session" where
  "measured_session cl n1 n2 conv_a conv_b =
     session_on (empty_tables\<lparr>ab_test_campaigns := [measured_test cl n1 n2 conv_a conv_b]\<rparr>)"

text \<open>The same test, completed a day after its start, and its database.\<close>

definition finished_test :: "real \<Rightarrow> int \<Rightarrow> int \<Rightarrow> int \<Rightarrow> int \<Rightarrow> ABTestCampaign" where
  "finished_test cl n1 n2 conv_a conv_b =
     (measured_test cl n1 n2 conv_a conv_b)
       \<lparr>test_status := COMPLETED, started_at := Some 0, completed_at := Some 86400\<rparr>"

definition finished_session :: "real \<Rightarrow> int \<Rightarrow> int \<Rightarrow> int \<Rightarrow> int \<Rightarrow> session" where
  "finished_session cl n1 n2 conv_a conv_b =
     session_on (empty_tables\<lparr>ab_test_campaigns := [finished_test cl n1 n2 conv_a conv_b]\<rparr>)"

text \<open>A specification with three variants and a traffic split of 1.5.\<close>

definition three_variants :: "variant_data list" where
  "three_variants =
     two_variants @ [\<lparr>data_variant_name = ''C'', data_message_content = Some ''Hey''\<rparr>]"

definition invalid_test_data :: test_data where
  "invalid_test_data = sample_test_data 1.5 100 three_variants"

text \<open>
  A population of \<open>n\<close> contacts of user 1, and the session after user 1 has created a
  test with two variants \<open>A\<close> and \<open>B\<close> over it: test 1, in draft status.
\<close>

definition population :: "nat \<Rightarrow> Contact list" where
  "population n =
     map (\<lambda>i. \<lparr>contact_id = int i, contact_user_id = 1, phone = str_nat (5550000000 + i)\<rparr>)
       [1..<Suc n]"

definition draft_session :: "real \<Rightarrow> int \<Rightarrow> nat \<Rightarrow> session" where
  "draft_session split minimum n =
     snd (create_ab_test 1 (sample_test_data split minimum two_variants)
            (session_on (empty_tables\<lparr>contacts := population n\<rparr>)))"

text \<open>The rows that \<open>draft_session\<close> holds for the test and its variants.\<close>

definition draft_test :: "real \<Rightarrow> int \<Rightarrow> ABTestCampaign" where
  "draft_test split minimum = new_campaign 1 1 (sample_test_data split minimum two_variants)"

definition variant_row :: "int \<Rightarrow> string \<Rightarrow> string \<Rightarrow> ABTestVariant" where
  "variant_row k name text =
     \<lparr>variant_id = k, variant_campaign_id = 1, variant_name = name,
      variant_type = MESSAGE_CONTENT, message_content = Some text, recipients_count = 0\<rparr>"


text \<open>
  Campaign 1, in status \<open>sending\<close>, with its only message, whose provider id is \<open>SM1\<close>,
  in the given status; and the callback that reports this message as delivered.
\<close>

definition sending_campaign :: Campaign where
  "sending_campaign =
     \<lparr>campaign_id = 1, campaign_status = Campaign_SENDING, sent_at = Some 0,
      total_recipients = 1, delivered_count = 0, failed_count = 0\<rparr>"

definition one_message :: "MessageStatus \<Rightarrow> Message" where
  "one_message st =
     \<lparr>message_pk = 1, message_campaign_id = Some 1, recipient = ''5550000001'',
      content = ''Hello'', message_status = st, delivered_at = None, error_message = None,
      message_id = Some ''SM1'', is_incoming = ''false''\<rparr>"

definition campaign_session :: "MessageStatus \<Rightarrow> session" where
  "campaign_session st =
     session_on (empty_tables\<lparr>campaigns := [sending_campaign], messages := [one_message st]\<rparr>)"

definition delivered_callback :: webhook_data where
  "delivered_callback = [''message_id'' \<mapsto> ''SM1'', ''status'' \<mapsto> ''delivered'']"

text \<open>
  Ten messages sent through Twilio, where the HTTP call for message number 7 (position
  6) raises a timeout and every other call is accepted.
\<close>

definition ten_phones :: "string list" where
  "ten_phones =
     [''5550000001'', ''5550000002'', ''5550000003'', ''5550000004'', ''5550000005'',
      ''5550000006'', ''5550000007'', ''5550000008'', ''5550000009'', ''5550000010'']"

definition ten_messages :: "sms list" where
  "ten_messages =
     map (\<lambda>p. \<lparr>sms_phone = p, sms_message = ''Hello'', sms_sender_id = None\<rparr>) ten_phones"

definition timeout_at_7 :: "nat \<Rightarrow> call_env" where
  "timeout_at_7 k =
     \<lparr>http = (if k = 6 then HttpException ''timeout''
              else Response 201 (Some ''SM'')),
      clock = 0, random = 0, phone_hash = 0\<rparr>"

section \<open>Bounds for the error function\<close>

lemma math_erf_0: "math_erf 0 = 0"
  by (simp add: math_erf_def)

lemma erf_coeff_nonneg: "0 \<le> q \<Longrightarrow> 0 \<le> erf_coeff q n"
  by (simp add: erf_coeff_def)

lemma erf_coeff_le_exp: "0 \<le> q \<Longrightarrow> erf_coeff q n \<le> inverse (fact n) * q ^ n"
proof -
  assume q: "0 \<le> q"
  have "q ^ n / (fact n * real (2 * n + 1)) \<le> q ^ n / (fact n * 1)"
    by (rule divide_left_mono) (use q in \<open>simp_all\<close>)
  then show ?thesis by (simp add: erf_coeff_def field_simps)
qed

lemma erf_coeff_tendsto_0:
  assumes q: "0 \<le> q"
  shows "erf_coeff q \<longlonglongrightarrow> 0"
proof (rule tendsto_sandwich)
  show "(\<lambda>n. 0::real) \<longlonglongrightarrow> 0" by simp
  show "(\<lambda>n. inverse (fact n) * q ^ n) \<longlonglongrightarrow> 0"
    by (rule summable_LIMSEQ_zero) (rule summable_exp)
  show "\<forall>\<^sub>F n in sequentially. 0 \<le> erf_coeff q n"
    using erf_coeff_nonneg[OF q] by simp
  show "\<forall>\<^sub>F n in sequentially. erf_coeff q n \<le> inverse (fact n) * q ^ n"
    using erf_coeff_le_exp[OF q] by simp
qed

text \<open>Up to \<open>q = 3\<close> the coefficients decrease from the first one on.\<close>

lemma erf_coeff_mono:
  assumes q: "0 \<le> q" "q \<le> 3"
  shows "erf_coeff q (Suc n) \<le> erf_coeff q n"
proof -
  have a: "q * (2 * real n + 1) \<le> (real n + 1) * (2 * real n + 3)"
  proof -
    have "q * (2 * real n + 1) \<le> 3 * (2 * real n + 1)"
      using q by (intro mult_right_mono) simp_all
    also have "\<dots> \<le> (real n + 1) * (2 * real n + 3)"
    proof -
      have "n \<le> 2 * n * n" by (cases n) simp_all
      then have "real n \<le> 2 * real n * real n"
        by (metis of_nat_le_iff of_nat_mult of_nat_numeral)
      then show ?thesis by (simp add: algebra_simps)
    qed
    finally show ?thesis .
  qed
  have "erf_coeff q (Suc n) = q ^ n * (q / ((real n + 1) * (2 * real n + 3))) / fact n"
    by (simp add: erf_coeff_def field_simps)
  also have "\<dots> \<le> q ^ n * (1 / (2 * real n + 1)) / fact n"
  proof -
    have pos: "0 < (real n + 1) * (2 * real n + 3)" "0 < 2 * real n + 1"
      by (simp_all add: add_pos_nonneg)
    have "q / ((real n + 1) * (2 * real n + 3)) \<le> 1 / (2 * real n + 1)"
      using a pos
      by (simp only: frac_le_eq divide_le_eq pos_divide_le_eq pos_le_divide_eq)
         (simp add: field_simps)
    then show ?thesis
      using q by (intro divide_right_mono mult_left_mono) simp_all
  qed
  also have "\<dots> = erf_coeff q n"
    by (simp add: erf_coeff_def field_simps)
  finally show ?thesis .
qed

lemma math_erf_series:
  "math_erf x = 2 / sqrt pi * (x * (\<Sum>n. (- 1) ^ n * erf_coeff (x\<^sup>2) n))"
proof -
  have "(\<lambda>n. (- 1) ^ n * x ^ (2 * n + 1) / (fact n * real (2 * n + 1)))
        = (\<lambda>n. x * ((- 1) ^ n * erf_coeff (x\<^sup>2) n))"
    by (rule ext) (simp add: erf_coeff_def power_mult)
  moreover have "summable (\<lambda>n. (- 1) ^ n * erf_coeff (x\<^sup>2) n)"
  proof (rule summable_comparison_test')
    show "summable (\<lambda>n. inverse (fact n) * (x\<^sup>2) ^ n)" by (rule summable_exp)
    show "norm ((- 1) ^ n * erf_coeff (x\<^sup>2) n) \<le> inverse (fact n) * (x\<^sup>2) ^ n" for n
      using erf_coeff_le_exp[of "x\<^sup>2" n] erf_coeff_nonneg[of "x\<^sup>2" n]
      by (simp add: abs_mult)
  qed
  ultimately show ?thesis
    by (simp add: math_erf_def suminf_mult)
qed

lemma math_erf_lower:
  assumes x: "0 \<le> x" "x\<^sup>2 \<le> 3"
  shows "2 / sqrt pi * (x * (\<Sum>i<2 * k. (- 1) ^ i * erf_coeff (x\<^sup>2) i)) \<le> math_erf x"
proof -
  have "(\<Sum>i<2 * k. (- 1) ^ i * erf_coeff (x\<^sup>2) i) \<le> (\<Sum>i. (- 1) ^ i * erf_coeff (x\<^sup>2) i)"
    by (rule summable_Leibniz'(2)[OF erf_coeff_tendsto_0 erf_coeff_nonneg erf_coeff_mono])
       (use x in simp_all)
  then show ?thesis
    unfolding math_erf_series using x
    by (intro mult_left_mono) simp_all
qed





lemma arctan_fifth: "arctan (1 / 5) \<le> 1 / 5"
proof -
  let ?a = "\<lambda>n. 1 / real (n * 2 + 1) * (1 / 5 :: real) ^ (n * 2 + 1)"
  have x: "\<bar>1 / 5 :: real\<bar> \<le> 1" by simp
  have eq: "arctan (1 / 5) = (\<Sum>k. (- 1) ^ k * ?a k)"
    by (rule arctan_series[OF x])
  have pos: "0 < ?a 0" by simp
  have "\<forall>n. (\<Sum>k. (- 1) ^ k * ?a k)
          \<in> {(\<Sum>i<2 * n. (- 1) ^ i * ?a i) .. (\<Sum>i<2 * n + 1. (- 1) ^ i * ?a i)}"
    by (rule mp[OF summable_Leibniz(2)[OF zeroseq_arctan_series[OF x]
          monoseq_arctan_series[OF x]] pos])
  then have "(\<Sum>k. (- 1) ^ k * ?a k)
          \<in> {(\<Sum>i<2 * 0. (- 1) ^ i * ?a i) .. (\<Sum>i<2 * 0 + 1. (- 1) ^ i * ?a i)}"
    by (rule spec)
  then have "(\<Sum>k. (- 1) ^ k * ?a k) \<le> (\<Sum>i<2 * 0 + 1. (- 1) ^ i * ?a i)"
    by (simp only: atLeastAtMost_iff)
  also have "\<dots> = 1 / 5" by simp
  finally show ?thesis unfolding eq .
qed

lemma pi_le_16_5: "pi \<le> 16 / 5"
proof -
  have "pi / 4 \<le> 4 * (1 / 5) - 0"
    unfolding machin using arctan_fifth by (intro diff_mono mult_left_mono) simp_all
  then show ?thesis by simp
qed

lemma partial_sum_900_319:
  "(\<Sum>i<8. (- 1) ^ i * erf_coeff (900 / 319) i) = 15717514199940015049 / 30589767331972197349"
  by (simp add: erf_coeff_def lessThan_nat_numeral lessThan_Suc fact_numeral power_divide)

lemma erf_30_sqrt_319: "19 / 20 < math_erf (30 / sqrt 319)"
proof -
  let ?x = "30 / sqrt (319 :: real)"
  let ?S = "15717514199940015049 / 30589767331972197349 :: real"
  have x: "0 \<le> ?x" "?x\<^sup>2 \<le> 3" by (simp_all add: power_divide)
  have x2: "?x\<^sup>2 = 900 / 319" by (simp add: power_divide)
  have lower: "2 / sqrt pi * (?x * ?S) \<le> math_erf ?x"
    using math_erf_lower[OF x, of 4] by (simp add: x2 partial_sum_900_319)
  have "sqrt pi * sqrt 319 = sqrt (pi * 319)" by (simp add: real_sqrt_mult)
  also have "\<dots> \<le> sqrt (32\<^sup>2)"
    using pi_le_16_5 by (intro real_sqrt_le_mono) simp
  finally have den: "sqrt pi * sqrt 319 \<le> 32" by simp
  have dpos: "0 < sqrt pi * sqrt 319" by simp
  have "60 / 32 \<le> 60 / (sqrt pi * sqrt 319)"
    using den dpos by (intro divide_left_mono) simp_all
  then have "60 / 32 * ?S \<le> 60 / (sqrt pi * sqrt 319) * ?S"
    by (intro mult_right_mono) simp_all
  also have "60 / (sqrt pi * sqrt 319) * ?S = 2 / sqrt pi * (?x * ?S)" by simp
  finally have "60 / 32 * ?S \<le> math_erf ?x" using lower by simp
  moreover have "19 / 20 < 60 / 32 * ?S" by simp
  ultimately show ?thesis by (rule less_le_trans[rotated])
qed





section \<open>Rounding to binary64\<close>

lemma floor_log2:
  assumes "2 powr of_int e \<le> x" "x < 2 powr of_int (e + 1)"
  shows "\<lfloor>log 2 x\<rfloor> = e"
proof -
  have "(0::real) < 2 powr of_int e" by simp
  then have pos: "0 < x" using assms(1) by (rule less_le_trans)
  have "of_int e \<le> log 2 x"
    using assms(1) le_log_iff[of 2 x "of_int e"] pos by simp
  moreover have "log 2 x < of_int (e + 1)"
    using assms(2) log_less_iff[of 2 x "of_int (e + 1)"] pos by simp
  ultimately show ?thesis by (simp add: floor_eq_iff)
qed

lemma binary64_eval:
  assumes "2 powr of_int e \<le> x" "x < 2 powr of_int (e + 1)"
  shows "binary64 x
           = of_int (round_half_even (x / 2 powr of_int (e - 52))) * 2 powr of_int (e - 52)"
proof -
  have "(0::real) < 2 powr of_int e" by simp
  then have pos: "0 < x" using assms(1) by (rule less_le_trans)
  show ?thesis
    using pos by (simp add: binary64_def Let_def floor_log2[OF assms])
qed

lemma two_powr_neg: "2 powr of_int (- int n) = 1 / (2 :: real) ^ n"
  by (simp add: powr_minus_divide powr_realpow)

lemma two_powr_pos: "2 powr of_int (int n) = (2 :: real) ^ n"
  by (simp add: powr_realpow)

lemma binary64_below_one:
  assumes "1 / 2 ^ n \<le> x" "x < 2 / 2 ^ n"
  shows "binary64 x = of_int (round_half_even (x * 2 ^ (52 + n))) / 2 ^ (52 + n)"
proof -
  have up: "2 powr of_int (- int n + 1) = 2 / (2 :: real) ^ n"
  proof -
    have "2 powr of_int (- int n + 1) = 2 powr of_int (- int n) * (2 :: real) powr 1"
      by (simp only: of_int_add of_int_1 powr_add)
    then show ?thesis by (simp add: two_powr_neg del: of_int_minus of_int_add)
  qed
  have ulp: "2 powr of_int (- int n - 52) = 1 / (2 :: real) ^ (52 + n)"
  proof -
    have "- int n - 52 = - int (52 + n)" by simp
    then show ?thesis by (simp only: two_powr_neg)
  qed
  have "binary64 x = of_int (round_half_even (x / 2 powr of_int (- int n - 52)))
                       * 2 powr of_int (- int n - 52)"
    by (rule binary64_eval) (simp_all only: two_powr_neg up assms)
  then show ?thesis by (simp only: ulp) simp
qed

lemma binary64_above_one:
  assumes "2 ^ n \<le> x" "x < 2 * 2 ^ n" "n \<le> 52"
  shows "binary64 x = of_int (round_half_even (x * 2 ^ (52 - n))) / 2 ^ (52 - n)"
proof -
  have up: "2 powr of_int (int n + 1) = 2 * (2 :: real) ^ n"
  proof -
    have "2 powr of_int (int n + 1) = 2 powr of_int (int n) * (2 :: real) powr 1"
      by (simp only: of_int_add of_int_1 powr_add)
    then show ?thesis by (simp add: powr_realpow)
  qed
  have ulp: "2 powr of_int (int n - 52) = 1 / (2 :: real) ^ (52 - n)"
  proof -
    have "int n - 52 = - int (52 - n)" using assms(3) by simp
    then show ?thesis by (simp only: two_powr_neg)
  qed
  have "binary64 x = of_int (round_half_even (x / 2 powr of_int (int n - 52)))
                       * 2 powr of_int (int n - 52)"
    by (rule binary64_eval) (simp_all only: two_powr_pos up assms)
  then show ?thesis by (simp only: ulp) simp
qed

text \<open>
  Rounding is monotone at the integers: a product between 0 and a natural number below
  \<open>2 ^ 53\<close> is rounded to a float between them.
\<close>

lemma round_half_even_nonneg: "0 \<le> y \<Longrightarrow> 0 \<le> round_half_even y"
  by (simp add: round_half_even_def Let_def)

lemma round_half_even_le:
  assumes "y \<le> of_int m"
  shows "round_half_even y \<le> m"
proof -
  have f: "\<lfloor>y\<rfloor> \<le> m" using assms by (simp add: floor_le_iff)
  show ?thesis
  proof (cases "y - of_int \<lfloor>y\<rfloor> < 1 / 2")
    case True
    then show ?thesis using f by (simp add: round_half_even_def Let_def)
  next
    case False
    then have "of_int \<lfloor>y\<rfloor> < y" by linarith
    then have "of_int \<lfloor>y\<rfloor> < (of_int m :: real)" using assms by linarith
    then have "\<lfloor>y\<rfloor> + 1 \<le> m" by simp
    then show ?thesis using f by (simp add: round_half_even_def Let_def)
  qed
qed

lemma binary64_nonneg: "0 \<le> x \<Longrightarrow> 0 \<le> binary64 x"
  by (simp add: binary64_def Let_def round_half_even_nonneg sgn_if)

lemma binary64_le_nat:
  assumes x: "0 \<le> x" "x \<le> real n" and n: "n < 2 ^ 53"
  shows "binary64 x \<le> real n"
proof (cases "x = 0")
  case True
  then show ?thesis by (simp add: binary64_def)
next
  case False
  then have pos: "0 < x" using x by simp
  define e where "e = \<lfloor>log 2 x\<rfloor>"
  have "x < 2 ^ 53"
  proof -
    have "real n < 2 ^ 53" using n by (metis of_nat_less_iff of_nat_numeral of_nat_power)
    then show ?thesis using x by linarith
  qed
  then have "log 2 x < 53"
    using pos log_less_iff[of 2 x 53] by (simp add: powr_realpow)
  then have e: "e \<le> 52" unfolding e_def by (simp add: floor_le_iff) 
  define k where "k = nat (52 - e)"
  have "e - 52 = - int k" using e by (simp add: k_def)
  then have ulp: "2 powr of_int (e - 52) = 1 / (2 :: real) ^ k"
    by (simp only: two_powr_neg)
  have "x * 2 ^ k \<le> real n * 2 ^ k" using x by (intro mult_right_mono) simp_all
  also have "\<dots> = of_int (int n * 2 ^ k)" by simp
  finally have "round_half_even (x * 2 ^ k) \<le> int n * 2 ^ k" by (rule round_half_even_le)
  then have "(of_int (round_half_even (x * 2 ^ k)) :: real) \<le> of_int (int n * 2 ^ k)"
    by (simp only: of_int_le_iff)
  then have "of_int (round_half_even (x * 2 ^ k)) / 2 ^ k \<le> real n"
    by (simp add: field_simps)
  moreover have "binary64 x = of_int (round_half_even (x * 2 ^ k)) / 2 ^ k"
  proof -
    have "binary64 x = of_int (round_half_even (x / 2 powr of_int (e - 52)))
                         * 2 powr of_int (e - 52)"
      using pos by (simp add: binary64_def Let_def e_def)
    then show ?thesis by (simp only: ulp) simp
  qed
  ultimately show ?thesis by simp
qed

section \<open>The analysis of a test\<close>

lemma p_value_of_0: "p_value_of 0 = 1"
  by (simp add: p_value_of_def normal_cdf_def math_erf_0)

lemma standard_error_zero:
  "n1 \<ge> 1 \<Longrightarrow> n2 \<ge> 1 \<Longrightarrow> standard_error n1 n2 0 0 = Inr 0"
  by (simp add: standard_error_def raising_def py_truediv_def math_sqrt_def)

lemma compute_analysis_zero:
  assumes "n1 \<ge> 1" "n2 \<ge> 1"
  shows "\<exists>a. compute_analysis cl n1 n2 0 0 = Inr a
             \<and> winner a = (if 0 \<le> cl then Some ''inconclusive'' else None)"
  using assms
  by (simp add: compute_analysis_def standard_error_zero raising_def rate_def z_score_of_def
      p_value_of_0 math_sqrt_def math_asin_def determine_winner_def Let_def)

lemma calculate_test_duration_defined:
  "started_at campaign = None \<or> completed_at campaign \<noteq> None
     \<Longrightarrow> \<exists>hours. calculate_test_duration now campaign = Inr hours"
proof (cases "started_at campaign")
  case None
  then have "calculate_test_duration now campaign = Inr 0"
    by (simp add: calculate_test_duration_def)
  then show ?thesis ..
next
  case (Some a)
  assume "started_at campaign = None \<or> completed_at campaign \<noteq> None"
  then obtain c where "completed_at campaign = Some c" using Some by auto
  then have "calculate_test_duration now campaign = Inr ((c - a) / 3600)"
    using Some by (simp add: calculate_test_duration_def)
  then show ?thesis ..
qed

lemma calculate_test_duration_running:
  "started_at campaign \<noteq> None \<Longrightarrow> completed_at campaign = None
     \<Longrightarrow> calculate_test_duration now campaign = Inl TypeError"
  by (cases "started_at campaign"; cases "completed_at campaign")
     (simp_all add: calculate_test_duration_def)

lemma analyze_ab_test_found:
  assumes "first (\<lambda>c. test_id c = cid) (ab_test_campaigns (working s)) = Some campaign"
    and "variant_a_recipients campaign \<noteq> 0" "variant_b_recipients campaign \<noteq> 0"
    and "started_at campaign = None \<or> completed_at campaign \<noteq> None"
  shows "fst (analyze_ab_test now cid s) =
           map_sum Raised id (compute_analysis (confidence_level campaign)
              (variant_a_recipients campaign) (variant_b_recipients campaign)
              (variant_a_opened campaign) (variant_b_opened campaign))"
proof -
  obtain hours where "calculate_test_duration now campaign = Inr hours"
    using calculate_test_duration_defined[OF assms(4)] by blast
  then show ?thesis
    using assms(1-3) by (simp add: analyze_ab_test_def Let_def split: sum.splits)
qed

lemma analyze_ab_test_running:
  assumes "first (\<lambda>c. test_id c = cid) (ab_test_campaigns (working s)) = Some campaign"
    and "variant_a_recipients campaign \<noteq> 0" "variant_b_recipients campaign \<noteq> 0"
    and "started_at campaign \<noteq> None" "completed_at campaign = None"
    and "compute_analysis (confidence_level campaign)
              (variant_a_recipients campaign) (variant_b_recipients campaign)
              (variant_a_opened campaign) (variant_b_opened campaign) = Inr a"
  shows "analyze_ab_test now cid s = (Inl (Raised TypeError), s)"
  using assms calculate_test_duration_running[OF assms(4,5), of now]
  by (simp add: analyze_ab_test_def)


lemma first_measured:
  "first (\<lambda>c. test_id c = 1) (ab_test_campaigns (working (measured_session cl n1 n2 ca cb)))
     = Some (measured_test cl n1 n2 ca cb)"
  by (simp add: measured_session_def session_on_def empty_tables_def first_def
      measured_test_def new_campaign_def)

lemma measured_test_simps:
  "confidence_level (measured_test cl n1 n2 ca cb) = cl"
  "variant_a_recipients (measured_test cl n1 n2 ca cb) = n1"
  "variant_b_recipients (measured_test cl n1 n2 ca cb) = n2"
  "variant_a_opened (measured_test cl n1 n2 ca cb) = ca"
  "variant_b_opened (measured_test cl n1 n2 ca cb) = cb"
  "started_at (measured_test cl n1 n2 ca cb) = None"
  by (simp_all add: measured_test_def new_campaign_def)

lemma first_finished:
  "first (\<lambda>c. test_id c = 1) (ab_test_campaigns (working (finished_session cl n1 n2 ca cb)))
     = Some (finished_test cl n1 n2 ca cb)"
  by (simp add: finished_session_def session_on_def empty_tables_def first_def
      finished_test_def measured_test_def new_campaign_def)

lemma finished_test_simps:
  "confidence_level (finished_test cl n1 n2 ca cb) = cl"
  "variant_a_recipients (finished_test cl n1 n2 ca cb) = n1"
  "variant_b_recipients (finished_test cl n1 n2 ca cb) = n2"
  "variant_a_opened (finished_test cl n1 n2 ca cb) = ca"
  "variant_b_opened (finished_test cl n1 n2 ca cb) = cb"
  "started_at (finished_test cl n1 n2 ca cb) = Some 0"
  "completed_at (finished_test cl n1 n2 ca cb) = Some 86400"
  by (simp_all add: finished_test_def measured_test_def)

text \<open>
  C5, for confidence levels that are not negative and tests whose duration the
  analysis can compute. When both variants have at least one recipient, neither has a
  conversion, the confidence level of the test is not negative, and the test has not
  been started or has been completed, \<open>analyze_ab_test\<close> raises nothing and reports
  the winner \<open>"inconclusive"\<close>. The statistics themselves (lines 188--232) raise
  nothing and give this winner for every such test, started or not.
\<close>

theorem analyze_zero_rates_inconclusive:
  assumes "first (\<lambda>c. test_id c = cid) (ab_test_campaigns (working s)) = Some campaign"
    and "1 \<le> variant_a_recipients campaign" and "1 \<le> variant_b_recipients campaign"
    and "variant_a_opened campaign = 0" and "variant_b_opened campaign = 0"
    and "0 \<le> confidence_level campaign"
  shows "(\<exists>a. compute_analysis (confidence_level campaign)
               (variant_a_recipients campaign) (variant_b_recipients campaign)
               (variant_a_opened campaign) (variant_b_opened campaign) = Inr a
             \<and> winner a = Some ''inconclusive'')
       \<and> (started_at campaign = None \<or> completed_at campaign \<noteq> None \<longrightarrow>
           (\<exists>a. fst (analyze_ab_test now cid s) = Inr a \<and> winner a = Some ''inconclusive''))"
proof -
  obtain a where a: "compute_analysis (confidence_level campaign)
      (variant_a_recipients campaign) (variant_b_recipients campaign) 0 0 = Inr a"
    "winner a = Some ''inconclusive''"
    using compute_analysis_zero[OF assms(2,3), of "confidence_level campaign"] assms(6) by auto
  have "fst (analyze_ab_test now cid s) = Inr a"
    if "started_at campaign = None \<or> completed_at campaign \<noteq> None"
    using analyze_ab_test_found[OF assms(1) _ _ that, of now] assms(2-5) a(1) by simp
  with a show ?thesis using assms(4,5) by auto
qed

theorem analyze_zero_rates_inconclusive_witness:
  "\<exists>a. fst (analyze_ab_test 0 1 (finished_session 0.95 100 100 0 0)) = Inr a
       \<and> winner a = Some ''inconclusive''"
  using analyze_zero_rates_inconclusive[OF first_finished[of "0.95" 100 100 0 0], where now = 0]
  by (simp add: finished_test_simps)

text \<open>
  With a negative confidence level the same test is "significant" (the p-value 1 is
  below \<open>1 - confidence_level\<close>), neither rate is above the other, and the winner
  stays \<open>None\<close>.
\<close>

theorem analyze_zero_rates_negative_confidence:
  "map_sum id winner (fst (analyze_ab_test 0 1 (measured_session (- 0.5) 1 1 0 0))) = Inr None"
proof -
  obtain a where a: "compute_analysis (- 0.5) 1 1 0 0 = Inr a" "winner a = None"
    using compute_analysis_zero[of 1 1 "- 0.5"] by auto
  have "fst (analyze_ab_test 0 1 (measured_session (- 0.5) 1 1 0 0)) = Inr a"
    using analyze_ab_test_found[OF first_measured[of "- 0.5" 1 1 0 0], where now = 0] a(1)
    by (simp add: measured_test_simps)
  with a(2) show ?thesis by simp
qed













section \<open>Creating a test\<close>


lemma fold_add_variant_campaigns:
  "ab_test_campaigns (fold (add_variant k ty) vs t) = ab_test_campaigns t"
  by (induction vs arbitrary: t) (simp_all add: add_variant_def)

lemma fold_add_variant_variants:
  "\<exists>new. ab_test_variants (fold (add_variant k ty) vs t) = ab_test_variants t @ new
     \<and> map (\<lambda>v. (variant_campaign_id v, variant_name v, variant_type v, recipients_count v)) new
         = map (\<lambda>v. (k, data_variant_name v, ty, 0)) vs"
proof (induction vs arbitrary: t)
  case Nil
  then show ?case by simp
next
  case (Cons v vs)
  obtain new where new: "ab_test_variants (fold (add_variant k ty) vs (add_variant k ty v t))
      = ab_test_variants (add_variant k ty v t) @ new"
    "map (\<lambda>v. (variant_campaign_id v, variant_name v, variant_type v, recipients_count v)) new
         = map (\<lambda>v. (k, data_variant_name v, ty, 0)) vs"
    using Cons.IH[of "add_variant k ty v t"] by blast
  let ?row = "\<lparr>variant_id = next_id (map variant_id (ab_test_variants t)),
          variant_campaign_id = k, variant_name = data_variant_name v,
          variant_type = ty, message_content = data_message_content v,
          recipients_count = 0\<rparr>"
  have step: "ab_test_variants (add_variant k ty v t) = ab_test_variants t @ [?row]"
    by (simp add: add_variant_def)
  show ?case
    by (rule exI[of _ "?row # new"]) (simp add: new step)
qed

text \<open>
  C7, as the code decides it. \<open>create_ab_test\<close> validates nothing: for every
  specification, whatever its traffic split and however many variants it lists, it
  answers with the id of the new test and has committed the test in draft status with
  the split as given, and one variant row per entry of the specification.
\<close>

theorem create_ab_test_persists_unvalidated:
  "\<exists>s' new.
     create_ab_test user test s = (Inr (new_test_id (working s)), s')
     \<and> committed s' = working s'
     \<and> ab_test_campaigns (committed s')
         = ab_test_campaigns (working s) @ [new_campaign (new_test_id (working s)) user test]
     \<and> test_status (new_campaign (new_test_id (working s)) user test) = DRAFT
     \<and> traffic_split (new_campaign (new_test_id (working s)) user test) = data_traffic_split test
     \<and> ab_test_variants (committed s') = ab_test_variants (working s) @ new
     \<and> map (\<lambda>v. (variant_campaign_id v, variant_name v, variant_type v, recipients_count v)) new
         = map (\<lambda>v. (new_test_id (working s), data_variant_name v, data_test_type test, 0))
             (data_variants test)"
proof -
  let ?t1 = "(working s)\<lparr>ab_test_campaigns :=
                  ab_test_campaigns (working s)
                  @ [new_campaign (new_test_id (working s)) user test]\<rparr>"
  obtain new where new:
    "ab_test_variants (fold (add_variant (new_test_id (working s)) (data_test_type test))
                        (data_variants test) ?t1)
       = ab_test_variants ?t1 @ new"
    "map (\<lambda>v. (variant_campaign_id v, variant_name v, variant_type v, recipients_count v)) new
         = map (\<lambda>v. (new_test_id (working s), data_variant_name v, data_test_type test, 0))
             (data_variants test)"
    using fold_add_variant_variants by blast
  show ?thesis
    apply (rule exI[of _ "snd (create_ab_test user test s)"])
    apply (rule exI[of _ new])
    using new
    apply (simp add: create_ab_test_def Let_def commit_def fold_add_variant_campaigns
        new_campaign_def)
    done
qed

text \<open>
  A specification with three variants and a traffic split of 1.5 is stored as it is.
\<close>

theorem create_ab_test_accepts_invalid:
  "fst (create_ab_test 1 invalid_test_data (session_on empty_tables)) = Inr 1
   \<and> map (\<lambda>c. (test_status c, traffic_split c))
        (ab_test_campaigns (committed (snd (create_ab_test 1 invalid_test_data (session_on empty_tables)))))
       = [(DRAFT, 1.5)]
   \<and> map variant_name
        (ab_test_variants (committed (snd (create_ab_test 1 invalid_test_data (session_on empty_tables)))))
       = [''A'', ''B'', ''C'']"
  by (simp add: create_ab_test_def Let_def commit_def session_on_def empty_tables_def
      invalid_test_data_def sample_test_data_def three_variants_def two_variants_def
      add_variant_def new_campaign_def next_id_def new_test_id_def)



section \<open>Starting a test\<close>

lemma length_swap [simp]: "length (swap i j xs) = length xs"
  by (simp add: swap_def)

lemma mset_swap_list: "i < length xs \<Longrightarrow> j < length xs \<Longrightarrow> mset (swap i j xs) = mset xs"
  unfolding swap_def by (rule mset_swap)

lemma shuffle_from_perm:
  "i < length xs \<Longrightarrow> mset (shuffle_from i rnd xs) = mset xs"
proof (induction i arbitrary: xs)
  case 0
  then show ?case by simp
next
  case (Suc i)
  have j: "rnd (Suc i) mod Suc (Suc i) < length xs"
    using Suc.prems by (meson Suc_leI less_le_trans mod_less_divisor zero_less_Suc)
  have "mset (shuffle_from i rnd (swap (Suc i) (rnd (Suc i) mod Suc (Suc i)) xs))
          = mset (swap (Suc i) (rnd (Suc i) mod Suc (Suc i)) xs)"
    using Suc.prems by (intro Suc.IH) simp
  also have "\<dots> = mset xs"
    using Suc.prems j by (rule mset_swap_list)
  finally show ?case by simp
qed

lemma mset_shuffle: "mset (shuffle rnd xs) = mset xs"
proof (cases xs)
  case Nil
  then show ?thesis by (simp add: shuffle_def)
next
  case (Cons x ys)
  then show ?thesis unfolding shuffle_def by (intro shuffle_from_perm) simp
qed

lemma length_shuffle: "length (shuffle rnd xs) = length xs"
  using mset_shuffle[of rnd xs] by (metis size_mset)

lemma slices_append: "slice_to k xs @ slice_from k xs = xs"
  by (simp add: slice_to_def slice_from_def)

lemma py_int_binary64:
  assumes "0 \<le> s" "s \<le> 1" "n < 2 ^ 53"
  shows "py_int (binary64 (real n * s)) = \<lfloor>binary64 (real n * s)\<rfloor>"
    "0 \<le> py_int (binary64 (real n * s))"
    "py_int (binary64 (real n * s)) \<le> int n"
proof -
  have nn: "0 \<le> real n * s" using assms by simp
  have le: "real n * s \<le> real n" using assms by (simp add: mult_left_le)
  have b: "0 \<le> binary64 (real n * s)" "binary64 (real n * s) \<le> real n"
    using binary64_nonneg[OF nn] binary64_le_nat[OF nn le assms(3)] by simp_all
  show "py_int (binary64 (real n * s)) = \<lfloor>binary64 (real n * s)\<rfloor>"
    using b by (simp add: py_int_def)
  show "0 \<le> py_int (binary64 (real n * s))" using b by (simp add: py_int_def)
  have "\<lfloor>binary64 (real n * s)\<rfloor> \<le> \<lfloor>real n\<rfloor>" using b(2) by (rule floor_mono)
  then show "py_int (binary64 (real n * s)) \<le> int n" using b by (simp add: py_int_def)
qed

lemma length_slice_to:
  "0 \<le> k \<Longrightarrow> k \<le> int (length xs) \<Longrightarrow> length (slice_to k xs) = nat k"
  by (simp add: slice_to_def slice_bound_def)

lemma length_slice_from:
  "0 \<le> k \<Longrightarrow> k \<le> int (length xs) \<Longrightarrow> length (slice_from k xs) = length xs - nat k"
  by (simp add: slice_from_def slice_bound_def)

lemma variant_groups:
  assumes "0 \<le> traffic_split campaign" "traffic_split campaign \<le> 1" "length cs < 2 ^ 53"
  shows "length (variant_a_contacts rnd campaign cs)
           = nat \<lfloor>binary64 (real (length cs) * traffic_split campaign)\<rfloor>"
    and "length (variant_b_contacts rnd campaign cs)
           = length cs - nat \<lfloor>binary64 (real (length cs) * traffic_split campaign)\<rfloor>"
  using py_int_binary64[OF assms]
  by (simp_all add: variant_a_contacts_def variant_b_contacts_def split_point_of_def
      length_slice_to length_slice_from length_shuffle)

lemma split_point_bounds:
  assumes "0 \<le> s" "s \<le> 1" "n < 2 ^ 53"
  shows "0 \<le> \<lfloor>binary64 (real n * s)\<rfloor>" "\<lfloor>binary64 (real n * s)\<rfloor> \<le> int n"
  using py_int_binary64[OF assms] by simp_all

text \<open>The groups for a split point that is known.\<close>

lemma variant_groups_at:
  assumes "split_point_of campaign cs = k" "0 \<le> k" "k \<le> int (length cs)"
  shows "length (variant_a_contacts rnd campaign cs) = nat k"
    and "length (variant_b_contacts rnd campaign cs) = length cs - nat k"
  using assms
  by (simp_all add: variant_a_contacts_def variant_b_contacts_def
      length_slice_to length_slice_from length_shuffle)

lemma variant_groups_partition:
  "variant_a_contacts rnd campaign cs @ variant_b_contacts rnd campaign cs = shuffle rnd cs"
  by (simp add: variant_a_contacts_def variant_b_contacts_def slices_append)

lemma variant_groups_mset:
  "mset (variant_a_contacts rnd campaign cs) + mset (variant_b_contacts rnd campaign cs) = mset cs"
  using variant_groups_partition[of rnd campaign cs] mset_shuffle[of rnd cs]
  by (metis mset_append)


lemma update_test_other [simp]:
  "ab_test_variants (update_test k f t) = ab_test_variants t"
  "ab_test_recipients (update_test k f t) = ab_test_recipients t"
  "contacts (update_test k f t) = contacts t"
  "ab_test_campaigns (update_test k f t) = map (\<lambda>c. if test_id c = k then f c else c) (ab_test_campaigns t)"
  by (simp_all add: update_test_def)

lemma update_variant_other [simp]:
  "ab_test_campaigns (update_variant k f t) = ab_test_campaigns t"
  "ab_test_recipients (update_variant k f t) = ab_test_recipients t"
  "contacts (update_variant k f t) = contacts t"
  by (simp_all add: update_variant_def)

lemma fold_add_recipient_other [simp]:
  "ab_test_campaigns (fold (add_recipient cid vid) cs t) = ab_test_campaigns t"
  "ab_test_variants (fold (add_recipient cid vid) cs t) = ab_test_variants t"
  "contacts (fold (add_recipient cid vid) cs t) = contacts t"
  by (induction cs arbitrary: t) (simp_all add: add_recipient_def)

lemma fold_add_recipient:
  "\<exists>new. ab_test_recipients (fold (add_recipient cid vid) cs t) = ab_test_recipients t @ new
     \<and> map assignment new = map (\<lambda>c. (cid, vid, contact_id c)) cs"
proof (induction cs arbitrary: t)
  case Nil
  then show ?case by simp
next
  case (Cons c cs)
  let ?row = "\<lparr>recipient_id = next_id (map recipient_id (ab_test_recipients t)),
          recipient_campaign_id = cid, recipient_variant_id = vid,
          recipient_contact_id = contact_id c\<rparr>"
  have step: "ab_test_recipients (add_recipient cid vid c t) = ab_test_recipients t @ [?row]"
    by (simp add: add_recipient_def)
  obtain new where new:
    "ab_test_recipients (fold (add_recipient cid vid) cs (add_recipient cid vid c t))
       = ab_test_recipients (add_recipient cid vid c t) @ new"
    "map assignment new = map (\<lambda>c. (cid, vid, contact_id c)) cs"
    using Cons.IH[of "add_recipient cid vid c t"] by blast
  have row: "assignment ?row = (cid, vid, contact_id c)"
    by (simp add: assignment_def)
  show ?case
    by (rule exI[of _ "?row # new"]) (simp add: new step row)
qed

lemma start_ab_test_success:
  assumes found: "first (\<lambda>c. test_id c = cid \<and> test_user_id c = user)
                    (ab_test_campaigns (working s)) = Some campaign"
    and draft: "test_status campaign = DRAFT"
    and cs: "cs = filter (\<lambda>c. contact_user_id c = user) (contacts (working s))"
    and enough: "minimum_sample_size campaign \<le> int (length cs)"
    and va: "find (\<lambda>v. variant_name v = ''A'')
               (filter (\<lambda>v. variant_campaign_id v = cid) (ab_test_variants (working s)))
             = Some variant_a"
    and vb: "find (\<lambda>v. variant_name v = ''B'')
               (filter (\<lambda>v. variant_campaign_id v = cid) (ab_test_variants (working s)))
             = Some variant_b"
  shows "\<exists>s' new. start_ab_test rnd now cid user s = (Inr ''A/B test started successfully'', s')
     \<and> committed s' = working s'
     \<and> ab_test_recipients (committed s') = ab_test_recipients (working s) @ new
     \<and> map assignment new
         = map (\<lambda>c. (cid, variant_id variant_a, contact_id c)) (variant_a_contacts rnd campaign cs)
           @ map (\<lambda>c. (cid, variant_id variant_b, contact_id c)) (variant_b_contacts rnd campaign cs)
     \<and> ab_test_campaigns (committed s')
         = map (\<lambda>c. if test_id c = cid
                     then c\<lparr>test_status := RUNNING, started_at := Some now,
                            variant_a_recipients := int (length (variant_a_contacts rnd campaign cs)),
                            variant_b_recipients := int (length (variant_b_contacts rnd campaign cs))\<rparr>
                     else c) (ab_test_campaigns (working s))"
proof -
  let ?t1 = "update_test cid (\<lambda>c. c\<lparr>test_status := RUNNING, started_at := Some now\<rparr>) (working s)"
  let ?ga = "variant_a_contacts rnd campaign cs"
  let ?gb = "variant_b_contacts rnd campaign cs"
  let ?t2 = "fold (add_recipient cid (variant_id variant_a)) ?ga ?t1"
  let ?t3 = "fold (add_recipient cid (variant_id variant_b)) ?gb ?t2"
  obtain new_a where a: "ab_test_recipients ?t2 = ab_test_recipients ?t1 @ new_a"
    "map assignment new_a = map (\<lambda>c. (cid, variant_id variant_a, contact_id c)) ?ga"
    using fold_add_recipient by blast
  obtain new_b where b: "ab_test_recipients ?t3 = ab_test_recipients ?t2 @ new_b"
    "map assignment new_b = map (\<lambda>c. (cid, variant_id variant_b, contact_id c)) ?gb"
    using fold_add_recipient by blast
  have ne: "\<not> int (length cs) < minimum_sample_size campaign" using enough by simp
  show ?thesis
    apply (rule exI[of _ "snd (start_ab_test rnd now cid user s)"])
    apply (rule exI[of _ "new_a @ new_b"])
    using found draft ne va vb cs[symmetric] a b
    apply (simp add: start_ab_test_def Let_def commit_def)
    done
qed



lemma start_ab_test_insufficient:
  assumes found: "first (\<lambda>c. test_id c = cid \<and> test_user_id c = user)
                    (ab_test_campaigns (working s)) = Some campaign"
    and draft: "test_status campaign = DRAFT"
    and cs: "cs = filter (\<lambda>c. contact_user_id c = user) (contacts (working s))"
    and few: "int (length cs) < minimum_sample_size campaign"
  shows "start_ab_test rnd now cid user s =
           (Inl (Message (''Not enough contacts. Need '' @ str_int (minimum_sample_size campaign)
                          @ '', have '' @ str_int (int (length cs)))),
            s\<lparr>working := update_test cid
                 (\<lambda>c. c\<lparr>test_status := RUNNING, started_at := Some now\<rparr>) (working s)\<rparr>)"
  using found draft few cs[symmetric]
  by (simp add: start_ab_test_def Let_def)


lemma draft_session_tables:
  "committed (draft_session split minimum n) = working (draft_session split minimum n)"
  "ab_test_campaigns (working (draft_session split minimum n)) = [draft_test split minimum]"
  "contacts (working (draft_session split minimum n)) = population n"
  "ab_test_recipients (working (draft_session split minimum n)) = []"
  "map (\<lambda>v. (variant_id v, variant_campaign_id v, variant_name v))
     (ab_test_variants (working (draft_session split minimum n))) = [(1, 1, ''A''), (2, 1, ''B'')]"
  by (simp_all add: draft_session_def create_ab_test_def Let_def commit_def session_on_def
      empty_tables_def sample_test_data_def two_variants_def add_variant_def next_id_def
      new_test_id_def draft_test_def)

lemma draft_test_simps [simp]:
  "test_id (draft_test split minimum) = 1"
  "test_user_id (draft_test split minimum) = 1"
  "test_status (draft_test split minimum) = DRAFT"
  "traffic_split (draft_test split minimum) = split"
  "minimum_sample_size (draft_test split minimum) = minimum"
  by (simp_all add: draft_test_def new_campaign_def sample_test_data_def)

lemma population_user: "filter (\<lambda>c. contact_user_id c = 1) (population n) = population n"
  by (simp add: population_def filter_map o_def)

lemma length_population [simp]: "length (population n) = n"
  by (simp add: population_def)

lemma first_draft:
  "first (\<lambda>c. test_id c = 1 \<and> test_user_id c = 1)
     (ab_test_campaigns (working (draft_session split minimum n))) = Some (draft_test split minimum)"
  by (simp add: draft_session_tables first_def)

lemma str_int_100: "str_int 100 = ''100''" "str_int 40 = ''40''"
  by code_simp+

lemma calculate_conversion_rates_status [simp]:
  "test_status (calculate_conversion_rates c) = test_status c"
  by (simp add: calculate_conversion_rates_def Let_def)

text \<open>
  C3. A draft test with \<open>minimum_sample_size = 100\<close> is started for an owner with 40
  contacts. The answer is the count-based error, and nothing is committed; but the
  loaded test has already been set to \<open>RUNNING\<close> (line 76 comes before the check of
  line 84) and is left so in the session, where the next commit of any operation,
  here a metric update that changes nothing, stores it.
\<close>

theorem start_ab_test_underpopulated:
  "fst (start_ab_test (\<lambda>i. 0) 0 1 1 (draft_session 0.5 100 40))
     = Inl (Message ''Not enough contacts. Need 100, have 40'')
   \<and> map test_status (ab_test_campaigns (committed
         (snd (start_ab_test (\<lambda>i. 0) 0 1 1 (draft_session 0.5 100 40))))) = [DRAFT]
   \<and> map test_status (ab_test_campaigns (working
         (snd (start_ab_test (\<lambda>i. 0) 0 1 1 (draft_session 0.5 100 40))))) = [RUNNING]
   \<and> map test_status (ab_test_campaigns (committed
         (snd (update_ab_test_metrics 1 []
            (snd (start_ab_test (\<lambda>i. 0) 0 1 1 (draft_session 0.5 100 40))))))) = [RUNNING]"
proof -
  let ?s = "draft_session 0.5 100 40"
  have "start_ab_test (\<lambda>i. 0) 0 1 1 ?s =
           (Inl (Message ''Not enough contacts. Need 100, have 40''),
            ?s\<lparr>working := update_test 1
                 (\<lambda>c. c\<lparr>test_status := RUNNING, started_at := Some 0\<rparr>) (working ?s)\<rparr>)"
    using start_ab_test_insufficient[OF first_draft[of "0.5" 100 40], where cs = "population 40"
        and rnd = "\<lambda>i. 0" and now = 0]
    by (simp add: draft_session_tables population_user str_int_100)
  then show ?thesis
    by (simp add: draft_session_tables update_ab_test_metrics_def first_def
        commit_def set_metrics_def)
qed


lemma draft_session_variants:
  "ab_test_variants (working (draft_session split minimum n))
     = [variant_row 1 ''A'' ''Hello'', variant_row 2 ''B'' ''Hi there'']"
  by (simp add: draft_session_def create_ab_test_def Let_def commit_def session_on_def
      empty_tables_def sample_test_data_def two_variants_def add_variant_def next_id_def
      new_test_id_def variant_row_def)

lemma find_draft_variants:
  "find (\<lambda>v. variant_name v = ''A'')
     (filter (\<lambda>v. variant_campaign_id v = 1) (ab_test_variants (working (draft_session split minimum n))))
     = Some (variant_row 1 ''A'' ''Hello'')"
  "find (\<lambda>v. variant_name v = ''B'')
     (filter (\<lambda>v. variant_campaign_id v = 1) (ab_test_variants (working (draft_session split minimum n))))
     = Some (variant_row 2 ''B'' ''Hi there'')"
  by (simp_all add: draft_session_variants variant_row_def)

text \<open>
  C4, with the product that the code computes. For a population of \<open>N\<close> contacts, \<open>N\<close>
  at least the minimum sample size (and below \<open>2 ^ 53\<close>), and a traffic split \<open>s\<close> with
  \<open>0 \<le> s \<le> 1\<close>, a start of the test stores one recipient row per contact: \<open>k\<close> of them
  for variant A and the other \<open>N - k\<close> for variant B, where \<open>k\<close> is the floor of the float
  product of \<open>N\<close> and \<open>s\<close>, a number from 0 to \<open>N\<close>. The two groups together are the
  population, each contact as often as it is in there.
\<close>

theorem start_ab_test_assignment:
  assumes "first (\<lambda>c. test_id c = cid \<and> test_user_id c = user)
             (ab_test_campaigns (working s)) = Some campaign"
    and "test_status campaign = DRAFT"
    and "cs = filter (\<lambda>c. contact_user_id c = user) (contacts (working s))"
    and "minimum_sample_size campaign \<le> int (length cs)"
    and "0 \<le> traffic_split campaign" and "traffic_split campaign \<le> 1"
    and "length cs < 2 ^ 53"
    and "find (\<lambda>v. variant_name v = ''A'')
           (filter (\<lambda>v. variant_campaign_id v = cid) (ab_test_variants (working s)))
         = Some variant_a"
    and "find (\<lambda>v. variant_name v = ''B'')
           (filter (\<lambda>v. variant_campaign_id v = cid) (ab_test_variants (working s)))
         = Some variant_b"
  shows "\<exists>s' new.
       start_ab_test rnd now cid user s = (Inr ''A/B test started successfully'', s')
     \<and> ab_test_recipients (committed s') = ab_test_recipients (working s) @ new
     \<and> map assignment new
         = map (\<lambda>c. (cid, variant_id variant_a, contact_id c)) (variant_a_contacts rnd campaign cs)
           @ map (\<lambda>c. (cid, variant_id variant_b, contact_id c)) (variant_b_contacts rnd campaign cs)
     \<and> length (variant_a_contacts rnd campaign cs)
         = nat \<lfloor>binary64 (real (length cs) * traffic_split campaign)\<rfloor>
     \<and> length (variant_b_contacts rnd campaign cs)
         = length cs - nat \<lfloor>binary64 (real (length cs) * traffic_split campaign)\<rfloor>
     \<and> 0 \<le> \<lfloor>binary64 (real (length cs) * traffic_split campaign)\<rfloor>
     \<and> \<lfloor>binary64 (real (length cs) * traffic_split campaign)\<rfloor> \<le> int (length cs)
     \<and> mset (variant_a_contacts rnd campaign cs) + mset (variant_b_contacts rnd campaign cs)
         = mset cs"
proof -
  obtain s' new where
    "start_ab_test rnd now cid user s = (Inr ''A/B test started successfully'', s')"
    "ab_test_recipients (committed s') = ab_test_recipients (working s) @ new"
    "map assignment new
         = map (\<lambda>c. (cid, variant_id variant_a, contact_id c)) (variant_a_contacts rnd campaign cs)
           @ map (\<lambda>c. (cid, variant_id variant_b, contact_id c)) (variant_b_contacts rnd campaign cs)"
    using start_ab_test_success[OF assms(1-4,8,9), of rnd now] by blast
  then show ?thesis
    using variant_groups[OF assms(5,6,7), of rnd] variant_groups_mset[of rnd campaign cs]
      split_point_bounds[OF assms(5,6,7)]
    by blast
qed

lemma binary64_3_2: "binary64 (3 / 2) = 3 / 2"
  by (subst binary64_above_one[where n = 0]) (simp_all add: round_half_even_def Let_def)

theorem start_ab_test_assignment_witness:
  "\<exists>s' new.
       start_ab_test (\<lambda>i. 0) 0 1 1 (draft_session 0.5 2 3)
         = (Inr ''A/B test started successfully'', s')
     \<and> ab_test_recipients (committed s') = new
     \<and> map assignment new
         = map (\<lambda>c. (1, 1, contact_id c)) (variant_a_contacts (\<lambda>i. 0) (draft_test 0.5 2) (population 3))
           @ map (\<lambda>c. (1, 2, contact_id c)) (variant_b_contacts (\<lambda>i. 0) (draft_test 0.5 2) (population 3))
     \<and> length (variant_a_contacts (\<lambda>i. 0) (draft_test 0.5 2) (population 3)) = 1
     \<and> length (variant_b_contacts (\<lambda>i. 0) (draft_test 0.5 2) (population 3)) = 2
     \<and> mset (variant_a_contacts (\<lambda>i. 0) (draft_test 0.5 2) (population 3))
         + mset (variant_b_contacts (\<lambda>i. 0) (draft_test 0.5 2) (population 3))
         = mset (population 3)"
  using start_ab_test_assignment[OF first_draft[of "0.5" 2 3], where cs = "population 3"
      and rnd = "\<lambda>i. 0" and now = 0, OF _ _ _ _ _ _ find_draft_variants]
  by (simp add: draft_session_tables population_user variant_row_def binary64_3_2)

text \<open>
  The float product is not the exact one. For 100 contacts and a traffic split of 0.57,
  stored as the float nearest to it, the product is rounded to
  \<open>56.99999999999999\<close> and variant A gets 56 recipients, one fewer than
  \<open>floor (100 * 0.57) = 57\<close>. For 10 contacts and a traffic split of 0.7, stored as a
  float just below it, the product is rounded up to \<open>7.0\<close> and variant A gets 7
  recipients, one more than the floor of the exact product of 10 and the stored float.
\<close>

lemma started_counts:
  assumes "split_point_of (draft_test split minimum) (population n) = k"
    and "0 \<le> k" "k \<le> int n" "minimum \<le> int n"
  shows "\<exists>s1. start_ab_test rnd now 1 1 (draft_session split minimum n)
           = (Inr ''A/B test started successfully'', s1)
     \<and> committed s1 = working s1
     \<and> ab_test_campaigns (working s1)
         = [(draft_test split minimum)\<lparr>test_status := RUNNING, started_at := Some now,
               variant_a_recipients := k, variant_b_recipients := int n - k\<rparr>]"
proof -
  have a: "length (variant_a_contacts rnd (draft_test split minimum) (population n)) = nat k"
    "length (variant_b_contacts rnd (draft_test split minimum) (population n)) = n - nat k"
    using variant_groups_at[OF assms(1), of rnd] assms(2,3) by simp_all
  obtain s' where s': "start_ab_test rnd now 1 1 (draft_session split minimum n)
        = (Inr ''A/B test started successfully'', s')"
    "committed s' = working s'"
    "ab_test_campaigns (committed s')
         = map (\<lambda>c. if test_id c = 1
                     then c\<lparr>test_status := RUNNING, started_at := Some now,
                            variant_a_recipients := int (length (variant_a_contacts rnd (draft_test split minimum) (population n))),
                            variant_b_recipients := int (length (variant_b_contacts rnd (draft_test split minimum) (population n)))\<rparr>
                     else c) (ab_test_campaigns (working (draft_session split minimum n)))"
    using start_ab_test_success[OF first_draft[of split minimum n], where cs = "population n"
      and rnd = rnd and now = now, OF _ _ _ find_draft_variants] assms(4)
    by (auto simp: draft_session_tables population_user)
  have "int (n - nat k) = int n - k" using assms(2,3) by simp
  then show ?thesis
    using s' a assms(2) by (auto simp: draft_session_tables)
qed

lemma binary64_57_100: "binary64 (57 / 100) = 5134103575202365 / 9007199254740992"
  by (subst binary64_below_one[where n = 1]) (simp_all add: round_half_even_def Let_def)

lemma binary64_7_10: "binary64 (7 / 10) = 3152519739159347 / 4503599627370496"
  by (subst binary64_below_one[where n = 1]) (simp_all add: round_half_even_def Let_def)

lemma split_point_100_57:
  "split_point_of (draft_test (binary64 (57 / 100)) 100) (population 100) = 56"
proof -
  have l: "real (length (population 100)) = 100" by simp
  have t: "traffic_split (draft_test (binary64 (57 / 100)) 100)
             = 5134103575202365 / 9007199254740992"
    by (simp add: binary64_57_100)
  have p: "binary64 (100 * (5134103575202365 / 9007199254740992))
             = 8022036836253695 / 140737488355328"
    by (subst binary64_above_one[where n = 5]) (simp_all add: round_half_even_def Let_def)
  have "split_point_of (draft_test (binary64 (57 / 100)) 100) (population 100)
          = py_int (8022036836253695 / 140737488355328)"
    unfolding split_point_of_def by (simp only: l t p)
  then show ?thesis
    by (simp add: py_int_def)
qed

lemma split_point_10_7:
  "split_point_of (draft_test (binary64 (7 / 10)) 10) (population 10) = 7"
proof -
  have l: "real (length (population 10)) = 10" by simp
  have t: "traffic_split (draft_test (binary64 (7 / 10)) 10)
             = 3152519739159347 / 4503599627370496"
    by (simp add: binary64_7_10)
  have p: "binary64 (10 * (3152519739159347 / 4503599627370496)) = 7"
    by (subst binary64_above_one[where n = 2]) (simp_all add: round_half_even_def Let_def)
  have "split_point_of (draft_test (binary64 (7 / 10)) 10) (population 10) = py_int 7"
    unfolding split_point_of_def by (simp only: l t p)
  then show ?thesis
    by (simp add: py_int_def)
qed

theorem start_ab_test_float_product:
  "map variant_a_recipients (ab_test_campaigns (committed
       (snd (start_ab_test (\<lambda>i. 0) 0 1 1 (draft_session (binary64 (57 / 100)) 100 100))))) = [56]
   \<and> \<lfloor>real 100 * (57 / 100 :: real)\<rfloor> = (57 :: int)
   \<and> map variant_a_recipients (ab_test_campaigns (committed
       (snd (start_ab_test (\<lambda>i. 0) 0 1 1 (draft_session (binary64 (7 / 10)) 10 10))))) = [7]
   \<and> \<lfloor>real 10 * binary64 (7 / 10)\<rfloor> = (6 :: int)"
proof -
  obtain s1 where s1: "start_ab_test (\<lambda>i. 0) 0 1 1 (draft_session (binary64 (57 / 100)) 100 100)
           = (Inr ''A/B test started successfully'', s1)"
     "committed s1 = working s1"
     "ab_test_campaigns (working s1)
         = [(draft_test (binary64 (57 / 100)) 100)\<lparr>test_status := RUNNING, started_at := Some 0,
               variant_a_recipients := 56, variant_b_recipients := int 100 - 56\<rparr>]"
    using started_counts[OF split_point_100_57, of "\<lambda>i. 0" 0] by auto
  obtain s2 where s2: "start_ab_test (\<lambda>i. 0) 0 1 1 (draft_session (binary64 (7 / 10)) 10 10)
           = (Inr ''A/B test started successfully'', s2)"
     "committed s2 = working s2"
     "ab_test_campaigns (working s2)
         = [(draft_test (binary64 (7 / 10)) 10)\<lparr>test_status := RUNNING, started_at := Some 0,
               variant_a_recipients := 7, variant_b_recipients := int 10 - 7\<rparr>]"
    using started_counts[OF split_point_10_7, of "\<lambda>i. 0" 0] by auto
  have "\<lfloor>real 10 * binary64 (7 / 10)\<rfloor> = (6 :: int)"
    by (simp add: binary64_7_10)
  then show ?thesis
    by (simp add: s1 s2)
qed

text \<open>
  A traffic split above 1 is stored by \<open>create_ab_test\<close> as any other; the slice then
  takes the whole population: with two contacts and a split of 1.5 variant A has 2
  recipients, not \<open>floor (2 * 1.5) = 3\<close>.
\<close>

lemma length_slice_to_beyond:
  "int (length xs) \<le> k \<Longrightarrow> length (slice_to k xs) = length xs"
  by (simp add: slice_to_def slice_bound_def)

lemma length_slice_from_beyond:
  "int (length xs) \<le> k \<Longrightarrow> length (slice_from k xs) = 0"
  by (simp add: slice_from_def slice_bound_def)

lemma start_ab_test_split_above_one:
  "map variant_a_recipients (ab_test_campaigns (committed
       (snd (start_ab_test (\<lambda>i. 0) 0 1 1 (draft_session 1.5 2 2))))) = [2]
   \<and> \<lfloor>real 2 * (1.5 :: real)\<rfloor> = (3 :: int)"
proof -
  have "binary64 3 = 3"
    by (subst binary64_above_one[where n = 1]) (simp_all add: round_half_even_def Let_def)
  then have sp: "split_point_of (draft_test 1.5 2) (population 2) = 3"
    by (simp add: split_point_of_def py_int_def)
  have a: "length (variant_a_contacts (\<lambda>i. 0) (draft_test 1.5 2) (population 2)) = 2"
    using sp by (simp add: variant_a_contacts_def length_slice_to_beyond length_shuffle)
  obtain s' where s': "start_ab_test (\<lambda>i. 0) 0 1 1 (draft_session 1.5 2 2)
        = (Inr ''A/B test started successfully'', s')"
    "ab_test_campaigns (committed s')
         = map (\<lambda>c. if test_id c = 1
                     then c\<lparr>test_status := RUNNING, started_at := Some 0,
                            variant_a_recipients := int (length (variant_a_contacts (\<lambda>i. 0) (draft_test 1.5 2) (population 2))),
                            variant_b_recipients := int (length (variant_b_contacts (\<lambda>i. 0) (draft_test 1.5 2) (population 2)))\<rparr>
                     else c) (ab_test_campaigns (working (draft_session 1.5 2 2)))"
    using start_ab_test_success[OF first_draft[of "1.5" 2 2], where cs = "population 2"
      and rnd = "\<lambda>i. 0" and now = 0, OF _ _ _ find_draft_variants]
    by (auto simp: draft_session_tables population_user)
  show ?thesis
    using s' a by (simp add: draft_session_tables)
qed



section \<open>Metric updates\<close>

lemma counter_value_setattr:
  assumes "key' \<in> set counter_names"
  shows "counter_value key' (setattr_campaign key v c)
           = (if key = key' then v else counter_value key' c)"
  using assms unfolding counter_names_def
  by (auto simp: counter_value_def setattr_campaign_def)

lemma counter_value_rates [simp]:
  "counter_value key (calculate_conversion_rates c) = counter_value key c"
  by (simp add: calculate_conversion_rates_def counter_value_def Let_def)

lemma set_metrics_mono:
  assumes "\<forall>(key, v) \<in> set ms. key \<in> set counter_names \<longrightarrow> counter_value key c0 \<le> v"
    and "\<forall>key \<in> set counter_names. counter_value key c0 \<le> counter_value key c"
  shows "\<forall>key \<in> set counter_names. counter_value key c0 \<le> counter_value key (set_metrics ms c)"
  using assms unfolding set_metrics_def
proof (induction ms arbitrary: c)
  case Nil
  then show ?case by simp
next
  case (Cons m ms)
  obtain key v where m: "m = (key, v)" by (cases m)
  have "\<forall>key' \<in> set counter_names. counter_value key' c0 \<le> counter_value key' (setattr_campaign key v c)"
    using Cons.prems m by (auto simp: counter_value_setattr)
  then show ?case
    using Cons.IH[of "setattr_campaign key v c"] Cons.prems(1) m by simp
qed


lemma find_map_preserved:
  assumes "\<And>x. P (g x) = P x"
  shows "find P (map g xs) = map_option g (find P xs)"
  by (induction xs) (simp_all add: assms)

lemma update_ab_test_metrics_found:
  assumes "first (\<lambda>c. test_id c = cid) (ab_test_campaigns (working s)) = Some campaign"
  shows "\<exists>s'. update_ab_test_metrics cid metrics_data s = (Inr (), s')
     \<and> committed s' = working s'
     \<and> first (\<lambda>c. test_id c = cid) (ab_test_campaigns (committed s'))
         = Some (calculate_conversion_rates (set_metrics metrics_data campaign))"
proof -
  let ?g = "\<lambda>c. if test_id c = cid then calculate_conversion_rates (set_metrics metrics_data c) else c"
  have id: "test_id (calculate_conversion_rates (set_metrics metrics_data c)) = test_id c" for c
  proof -
    have "test_id (fold (\<lambda>(key, v). setattr_campaign key v) ms c) = test_id c" for ms
      by (induction ms arbitrary: c) (auto simp: setattr_campaign_def)
    then show ?thesis
      by (simp add: calculate_conversion_rates_def set_metrics_def Let_def)
  qed
  have "find (\<lambda>c. test_id c = cid) (map ?g (ab_test_campaigns (working s)))
          = map_option ?g (find (\<lambda>c. test_id c = cid) (ab_test_campaigns (working s)))"
    by (rule find_map_preserved) (simp add: id)
  moreover have "test_id campaign = cid"
    using assms by (auto simp: first_def find_Some_iff)
  ultimately show ?thesis
    using assms
    by (simp add: update_ab_test_metrics_def first_def commit_def update_test_def)
qed

lemma delivery_report_keeps_tests:
  "ab_test_campaigns (working (snd (delivery_report_by attr data now s)))
     = ab_test_campaigns (working s)"
  by (simp add: delivery_report_by_def record_status_def Let_def commit_def update_message_def
      recalculate_campaign_def update_campaign_def
      split: option.splits sum.splits prod.splits)

text \<open>
  C9, for updates that lower no value. \<open>update_ab_test_metrics\<close> overwrites every
  counter that \<open>metrics_data\<close> names with the value given, whatever the status of the
  test: across a metric update that names counters only, no counter of the test
  decreases provided no value given is below the stored one. The delivery
  reconciliation does not write to tests at all.
\<close>

theorem counters_non_decreasing:
  assumes "first (\<lambda>c. test_id c = cid) (ab_test_campaigns (working s)) = Some campaign"
    and "\<forall>(key, v) \<in> set metrics_data.
           key \<in> set counter_names \<and> counter_value key campaign \<le> v"
  shows "\<exists>s' campaign'.
       update_ab_test_metrics cid metrics_data s = (Inr (), s')
     \<and> first (\<lambda>c. test_id c = cid) (ab_test_campaigns (committed s')) = Some campaign'
     \<and> (\<forall>key \<in> set counter_names. counter_value key campaign \<le> counter_value key campaign')
     \<and> ab_test_campaigns (working (snd (delivery_report_by attr data now s)))
         = ab_test_campaigns (working s)"
proof -
  obtain s' where s': "update_ab_test_metrics cid metrics_data s = (Inr (), s')"
    "first (\<lambda>c. test_id c = cid) (ab_test_campaigns (committed s'))
         = Some (calculate_conversion_rates (set_metrics metrics_data campaign))"
    using update_ab_test_metrics_found[OF assms(1)] by blast
  have "\<forall>(key, v) \<in> set metrics_data.
           key \<in> set counter_names \<longrightarrow> counter_value key campaign \<le> v"
    using assms(2) by blast
  then have "\<forall>key \<in> set counter_names.
          counter_value key campaign \<le> counter_value key (set_metrics metrics_data campaign)"
    by (rule set_metrics_mono) simp
  then show ?thesis
    using s' delivery_report_keeps_tests by (auto simp: counter_value_rates)
qed

theorem counters_non_decreasing_witness:
  "\<exists>s' campaign'.
       update_ab_test_metrics 1 [(''variant_a_opened'', 25), (''variant_b_opened'', 40)]
         (measured_session 0.95 100 100 20 35) = (Inr (), s')
     \<and> first (\<lambda>c. test_id c = 1) (ab_test_campaigns (committed s')) = Some campaign'
     \<and> list_all (\<lambda>key. counter_value key (measured_test 0.95 100 100 20 35)
                          \<le> counter_value key campaign') counter_names
     \<and> variant_a_opened campaign' = 25 \<and> variant_b_opened campaign' = 40"
proof -
  have pre: "\<forall>(key, v) \<in> set [(''variant_a_opened'', 25), (''variant_b_opened'', 40)].
           key \<in> set counter_names \<and> counter_value key (measured_test 0.95 100 100 20 35) \<le> v"
    by (simp add: counter_value_def counter_names_def measured_test_simps)
  obtain s' where s': "update_ab_test_metrics 1 [(''variant_a_opened'', 25), (''variant_b_opened'', 40)]
         (measured_session 0.95 100 100 20 35) = (Inr (), s')"
    "first (\<lambda>c. test_id c = 1) (ab_test_campaigns (committed s'))
         = Some (calculate_conversion_rates (set_metrics [(''variant_a_opened'', 25), (''variant_b_opened'', 40)]
              (measured_test 0.95 100 100 20 35)))"
    using update_ab_test_metrics_found[OF first_measured] by blast
  obtain s'' campaign' where w:
     "update_ab_test_metrics 1 [(''variant_a_opened'', 25), (''variant_b_opened'', 40)]
         (measured_session 0.95 100 100 20 35) = (Inr (), s'')"
     "first (\<lambda>c. test_id c = 1) (ab_test_campaigns (committed s'')) = Some campaign'"
     "\<forall>key \<in> set counter_names. counter_value key (measured_test 0.95 100 100 20 35)
          \<le> counter_value key campaign'"
    using counters_non_decreasing[OF first_measured pre] by blast
  have eq: "s'' = s'" using w(1) s'(1) by simp
  have c': "campaign' = calculate_conversion_rates (set_metrics [(''variant_a_opened'', 25), (''variant_b_opened'', 40)]
              (measured_test 0.95 100 100 20 35))"
    using w(2) s'(2) eq by simp
  have "variant_a_opened campaign' = 25 \<and> variant_b_opened campaign' = 40"
    unfolding c'
    by (simp add: calculate_conversion_rates_def set_metrics_def setattr_campaign_def Let_def)
  then show ?thesis
    using w by (auto simp: list_all_iff)
qed

text \<open>
  A metric update with \<open>variant_a_opened = 3\<close> on a running test that has counted 20
  opens leaves 3.
\<close>

theorem update_ab_test_metrics_lowers_counter:
  "map test_status (ab_test_campaigns (committed (measured_session 0.95 100 100 20 35))) = [RUNNING]
   \<and> map variant_a_opened (ab_test_campaigns (committed (measured_session 0.95 100 100 20 35))) = [20]
   \<and> map variant_a_opened (ab_test_campaigns (committed
        (snd (update_ab_test_metrics 1 [(''variant_a_opened'', 3)]
               (measured_session 0.95 100 100 20 35))))) = [3]"
  by (simp add: update_ab_test_metrics_def first_def commit_def update_test_def
      measured_session_def session_on_def empty_tables_def measured_test_def new_campaign_def
      set_metrics_def setattr_campaign_def calculate_conversion_rates_def Let_def)



section \<open>The delivery-report webhook\<close>

lemma handle_delivery_report_no_effect:
  "\<exists>e. handle_delivery_report data now s = (Inl e, s)"
  by (simp add: handle_delivery_report_def delivery_report_by_def find_reported_message_def
      getattr_Message_def Let_def split: option.splits)


lemma counts_by_view:
  "sent_count_of k t = count (\<lambda>(c, st). c = Some k \<and> st = SENT) (status_view t)"
  "failed_count_of k t = count (\<lambda>(c, st). c = Some k \<and> st = FAILED) (status_view t)"
  "total_messages_of k t = count (\<lambda>(c, st). c = Some k) (status_view t)"
  by (simp_all add: sent_count_of_def failed_count_of_def total_messages_of_def count_def
      status_view_def filter_map o_def)

lemma counts_cong:
  assumes "status_view t = status_view t'"
  shows "sent_count_of k t = sent_count_of k t'" "failed_count_of k t = failed_count_of k t'"
    "total_messages_of k t = total_messages_of k t'"
  by (simp_all add: counts_by_view assms)

lemma recalculate_messages [simp]:
  "messages (recalculate_campaign now c t) = messages t"
  by (simp add: recalculate_campaign_def update_campaign_def Let_def)

lemma update_message_campaigns [simp]:
  "campaigns (update_message k f t) = campaigns t"
  by (simp add: update_message_def)

lemma campaign_counters_recalculate:
  "campaign_counters (recalculate_campaign now c t)
     = map (\<lambda>x. if campaign_id x = campaign_id c
                 then (campaign_id x, sent_count_of (campaign_id c) t, failed_count_of (campaign_id c) t)
                 else (campaign_id x, delivered_count x, failed_count x)) (campaigns t)"
  by (simp add: campaign_counters_def recalculate_campaign_def update_campaign_def Let_def)

lemma campaign_ids_recalculate:
  "map campaign_id (campaigns (recalculate_campaign now c t)) = map campaign_id (campaigns t)"
  by (simp add: recalculate_campaign_def update_campaign_def Let_def)


lemma set_status_simps [simp]:
  "message_pk (set_status data now st m) = message_pk m"
  "message_campaign_id (set_status data now st m) = message_campaign_id m"
  "message_status (set_status data now st m) = st"
  "message_id (set_status data now st m) = message_id m"
  by (simp_all add: set_status_def)

lemma status_view_update_twice:
  assumes "messages t' = messages (update_message k (set_status data now1 st) t)"
  shows "status_view (update_message k (set_status data now2 st) t')
           = status_view (update_message k (set_status data now1 st) t)"
  by (simp add: status_view_def update_message_def assms o_def)

lemma find_campaign_after:
  assumes "map campaign_id (campaigns t') = map campaign_id (campaigns t)"
  shows "map_option campaign_id (first (\<lambda>c. Some (campaign_id c) = j) (campaigns t'))
           = map_option campaign_id (first (\<lambda>c. Some (campaign_id c) = j) (campaigns t))"
proof -
  have "map_option f (find (\<lambda>c. Some (f c) = j) xs) = find (\<lambda>i. Some i = j) (map f xs)"
    for f :: "Campaign \<Rightarrow> int" and xs
    by (induction xs) simp_all
  then show ?thesis by (simp add: first_def assms)
qed

lemma record_status_working:
  "working (record_status data now m st s) =
     (let t1 = update_message (message_pk m) (set_status data now st) (working s)
      in case first (\<lambda>c. Some (campaign_id c) = message_campaign_id m) (campaigns t1) of
           None \<Rightarrow> t1 | Some c \<Rightarrow> recalculate_campaign now c t1)"
  "committed (record_status data now m st s) = working (record_status data now m st s)"
  by (simp_all add: record_status_def Let_def commit_def split: option.splits)

lemma record_status_twice:
  "campaign_counters (working (record_status data now2 (set_status data now1 st m) st
                                 (record_status data now1 m st s)))
     = campaign_counters (working (record_status data now1 m st s))"
proof -
  define k where "k = message_pk m"
  define j where "j = message_campaign_id m"
  define t1 where "t1 = update_message k (set_status data now1 st) (working s)"
  define t1' where "t1' = working (record_status data now1 m st s)"
  define t2 where "t2 = update_message k (set_status data now2 st) t1'"
  have t1': "t1' = (case first (\<lambda>c. Some (campaign_id c) = j) (campaigns t1) of
                       None \<Rightarrow> t1 | Some c \<Rightarrow> recalculate_campaign now1 c t1)"
    unfolding t1'_def t1_def k_def j_def record_status_working(1) Let_def
    by (simp split: option.splits)
  have msgs: "messages t1' = messages t1"
    by (simp add: t1' split: option.splits)
  have ids: "map campaign_id (campaigns t1') = map campaign_id (campaigns t1)"
    by (simp add: t1' campaign_ids_recalculate split: option.splits)
  have view: "status_view t2 = status_view t1"
    unfolding t2_def t1_def
    by (rule status_view_update_twice) (simp add: msgs t1_def)
  have second: "working (record_status data now2 (set_status data now1 st m) st
                           (record_status data now1 m st s))
      = (case first (\<lambda>c. Some (campaign_id c) = j) (campaigns t1') of
           None \<Rightarrow> t2 | Some c \<Rightarrow> recalculate_campaign now2 c t2)"
    unfolding t2_def t1'_def k_def j_def record_status_working(1)[of data now2] Let_def
    by (simp split: option.splits)
  have look: "map_option campaign_id (first (\<lambda>c. Some (campaign_id c) = j) (campaigns t1'))
           = map_option campaign_id (first (\<lambda>c. Some (campaign_id c) = j) (campaigns t1))"
    by (rule find_campaign_after[OF ids])
  show ?thesis
  proof (cases "first (\<lambda>c. Some (campaign_id c) = j) (campaigns t1)")
    case None
    then have "first (\<lambda>c. Some (campaign_id c) = j) (campaigns t1') = None"
      using look by simp
    then show ?thesis
      using None unfolding second t1'_def[symmetric]
      by (simp add: t1' t2_def campaign_counters_def)
  next
    case (Some c)
    then obtain c' where c': "first (\<lambda>c. Some (campaign_id c) = j) (campaigns t1') = Some c'"
      "campaign_id c' = campaign_id c"
      using look by (cases "first (\<lambda>c. Some (campaign_id c) = j) (campaigns t1')") auto
    have t1'c: "t1' = recalculate_campaign now1 c t1" using Some by (simp add: t1')
    have "campaign_counters (recalculate_campaign now2 c' t2)
            = map (\<lambda>x. if campaign_id x = campaign_id c
                 then (campaign_id x, sent_count_of (campaign_id c) t1, failed_count_of (campaign_id c) t1)
                 else (campaign_id x, delivered_count x, failed_count x)) (campaigns t1')"
    proof -
      have ct2: "campaigns t2 = campaigns t1'" by (simp add: t2_def)
      have sc: "sent_count_of (campaign_id c) t2 = sent_count_of (campaign_id c) t1"
        by (rule counts_cong(1)[OF view])
      have fc: "failed_count_of (campaign_id c) t2 = failed_count_of (campaign_id c) t1"
        by (rule counts_cong(2)[OF view])
      show ?thesis
        by (simp only: campaign_counters_recalculate ct2 c'(2) sc fc)
    qed
    also have "\<dots> = campaign_counters t1'"
      unfolding t1'c
      by (simp add: campaign_counters_def recalculate_campaign_def update_campaign_def Let_def)
    finally show ?thesis
      unfolding second t1'_def[symmetric] by (simp add: c'(1))
  qed
qed


lemma messages_record_status:
  "messages (working (record_status data now m st s))
     = map (\<lambda>x. if message_pk x = message_pk m then set_status data now st x else x)
         (messages (working s))"
  by (simp add: record_status_working(1) Let_def update_message_def split: option.splits)

lemma find_reported_message_again:
  assumes "find_reported_message ''message_id'' data s = Inr (m, st)"
  shows "find_reported_message ''message_id'' data (record_status data now m st s)
           = Inr (set_status data now st m, st)"
proof -
  let ?g = "\<lambda>x. if message_pk x = message_pk m then set_status data now st x else x"
  have g: "find (\<lambda>x. message_id x = Some mid) (map ?g xs)
             = map_option ?g (find (\<lambda>x. message_id x = Some mid) xs)" for mid xs
    by (rule find_map_preserved) simp
  show ?thesis
    using assms
    by (auto simp: find_reported_message_def Let_def getattr_Message_def first_def
        messages_record_status g split: option.splits if_splits)
qed

text \<open>
  With the lookup on the column \<open>message_id\<close> that the model declares, the counters are
  recounted from the message rows at every callback, and the second application of a
  callback leaves them as the first one did. With the lookup that the source has, the
  recount is never reached.
\<close>

lemma recount_idempotent:
  assumes "attr = ''provider_message_id'' \<or> attr = ''message_id''"
  shows "campaign_counters (working (snd (delivery_report_by attr data now2
                                            (snd (delivery_report_by attr data now1 s)))))
           = campaign_counters (working (snd (delivery_report_by attr data now1 s)))
       \<and> campaign_counters (committed (snd (delivery_report_by attr data now2
                                            (snd (delivery_report_by attr data now1 s)))))
           = campaign_counters (committed (snd (delivery_report_by attr data now1 s)))"
proof (cases "find_reported_message attr data s")
  case (Inl e)
  then show ?thesis by (simp add: delivery_report_by_def)
next
  case (Inr found)
  obtain m st where found: "found = (m, st)" by (cases found)
  have attr: "attr = ''message_id''"
    using assms Inr
    by (auto simp: find_reported_message_def Let_def getattr_Message_def split: option.splits if_splits)
  have first: "snd (delivery_report_by attr data now1 s) = record_status data now1 m st s"
    using Inr found by (simp add: delivery_report_by_def)
  have "find_reported_message attr data (record_status data now1 m st s)
          = Inr (set_status data now1 st m, st)"
    using find_reported_message_again Inr found attr by simp
  then have second: "snd (delivery_report_by attr data now2 (record_status data now1 m st s))
      = record_status data now2 (set_status data now1 st m) st (record_status data now1 m st s)"
    by (simp add: delivery_report_by_def)
  show ?thesis
    unfolding first second by (simp add: record_status_working(2) record_status_twice)
qed

lemma recount_by_message_id:
  "campaign_counters (working
        (snd (delivery_report_by ''message_id'' delivered_callback 1 (campaign_session PENDING))))
     = [(1, 1, 0)]"
  by (simp add: delivery_report_by_def find_reported_message_def record_status_def
        recalculate_campaign_def update_campaign_def update_message_def set_status_def
        campaign_counters_def sent_count_of_def failed_count_of_def total_messages_of_def
        count_def commit_def first_def getattr_Message_def status_mapping_def lower_def
        py_or_def delivered_callback_def campaign_session_def session_on_def empty_tables_def
        sending_campaign_def one_message_def Let_def)




lemma record_status_completes:
  assumes c: "first (\<lambda>c. Some (campaign_id c) = message_campaign_id m) (campaigns (working s)) = Some c"
    and reached: "total_messages_of (campaign_id c) (working (record_status data now m st s))
             \<le> sent_count_of (campaign_id c) (working (record_status data now m st s))
               + failed_count_of (campaign_id c) (working (record_status data now m st s))"
    and x: "x \<in> set (campaigns (working (record_status data now m st s)))"
      "campaign_id x = campaign_id c"
  shows "campaign_status x = Campaign_SENT"
proof -
  define t1 where "t1 = update_message (message_pk m) (set_status data now st) (working s)"
  have w: "working (record_status data now m st s) = recalculate_campaign now c t1"
    using c by (simp add: record_status_working(1) Let_def t1_def)
  have v: "status_view (recalculate_campaign now c t1) = status_view t1"
    by (simp add: status_view_def)
  have "total_messages_of (campaign_id c) t1
          \<le> sent_count_of (campaign_id c) t1 + failed_count_of (campaign_id c) t1"
    using reached unfolding w by (simp add: counts_cong[OF v])
  then show ?thesis
    using x unfolding w
    by (auto simp: recalculate_campaign_def update_campaign_def Let_def)
qed

text \<open>
  C8. Campaign 1 is in status \<open>sending\<close> and its only message, with provider id \<open>SM1\<close>,
  is counted as delivered, so that delivered plus failed equals the number of its
  messages. The callback for \<open>SM1\<close> is answered with \<open>"Internal server error"\<close> and
  changes nothing: the campaign stays in status \<open>sending\<close>. So does it when the
  message is still pending: the callback never reaches the message.
\<close>

theorem delivery_report_never_completes:
  "handle_delivery_report delivered_callback 1 (campaign_session SENT)
     = (Inl (Message ''Internal server error''), campaign_session SENT)
   \<and> sent_count_of 1 (working (campaign_session SENT))
       + failed_count_of 1 (working (campaign_session SENT))
     = total_messages_of 1 (working (campaign_session SENT))
   \<and> map campaign_status (campaigns (working (campaign_session SENT))) = [Campaign_SENDING]
   \<and> handle_delivery_report delivered_callback 1 (campaign_session PENDING)
     = (Inl (Message ''Internal server error''), campaign_session PENDING)"
  by (simp add: handle_delivery_report_def delivery_report_by_def find_reported_message_def
      getattr_Message_def py_or_def delivered_callback_def Let_def
      sent_count_of_def failed_count_of_def total_messages_of_def count_def
      campaign_session_def session_on_def empty_tables_def sending_campaign_def
      one_message_def)

text \<open>
  Joined on the column \<open>message_id\<close> that the model declares, the same callback marks
  the pending message as sent and completes the campaign.
\<close>

lemma delivery_report_by_message_id_completes:
  "map campaign_status (campaigns (committed
       (snd (delivery_report_by ''message_id'' delivered_callback 1 (campaign_session PENDING)))))
     = [Campaign_SENT]"
  by (simp add: delivery_report_by_def find_reported_message_def record_status_def
        recalculate_campaign_def update_campaign_def update_message_def set_status_def
        sent_count_of_def failed_count_of_def total_messages_of_def
        count_def commit_def first_def getattr_Message_def status_mapping_def lower_def
        py_or_def delivered_callback_def campaign_session_def session_on_def empty_tables_def
        sending_campaign_def one_message_def Let_def)



section \<open>The bulk sender\<close>

lemma batch_records:
  "map (\<lambda>(j, result). record_result result (batch ! j))
       (enumerate 0 (map (\<lambda>j. task (i + j) (batch ! j)) [0..<length batch]))
     = map (\<lambda>(k, msg). record_result (task k msg) msg) (enumerate i batch)"
  by (rule nth_equalityI) (simp_all add: nth_enumerate_eq)


lemma send_batches_eq:
  "send_batches task msgs i results =
     results @ map (\<lambda>(k, msg). record_result (task k msg) msg) (enumerate i (drop i msgs))"
proof (induction task msgs i results rule: send_batches.induct)
  case (1 task msgs i results)
  show ?case
  proof (cases "i < length msgs")
    case False
    then show ?thesis by (simp add: send_batches.simps[of task msgs i])
  next
    case True
    let ?batch = "take batch_size (drop i msgs)"
    have split: "enumerate i (drop i msgs)
        = enumerate i ?batch @ enumerate (i + batch_size) (drop (i + batch_size) msgs)"
    proof (cases "i + batch_size \<le> length msgs")
      case True
      have "drop i msgs = ?batch @ drop (i + batch_size) msgs"
        by (metis append_take_drop_id drop_drop add.commute)
      then have "enumerate i (drop i msgs)
          = enumerate i (?batch @ drop (i + batch_size) msgs)" by simp
      also have "\<dots> = enumerate i ?batch
          @ enumerate (i + length ?batch) (drop (i + batch_size) msgs)"
        by (rule enumerate_append_eq)
      also have "length ?batch = batch_size" using True by simp
      finally show ?thesis .
    next
      case False
      then show ?thesis by simp
    qed
    have "send_batches task msgs i results
        = send_batches task msgs (i + batch_size)
            (results @ map (\<lambda>(k, msg). record_result (task k msg) msg) (enumerate i ?batch))"
      using True
      by (subst send_batches.simps) (simp add: Let_def batch_records)
    also have "\<dots> = (results @ map (\<lambda>(k, msg). record_result (task k msg) msg) (enumerate i ?batch))
        @ map (\<lambda>(k, msg). record_result (task k msg) msg)
            (enumerate (i + batch_size) (drop (i + batch_size) msgs))"
      using "1.IH"[OF True refl refl] by (simp only: batch_records)
    finally show ?thesis by (simp add: split)
  qed
qed

lemma send_bulk_sms_with_eq:
  "send_bulk_sms_with task msgs
     = map (\<lambda>(k, msg). record_result (task k msg) msg) (enumerate 0 msgs)"
  by (simp add: send_bulk_sms_with_def send_batches_eq)

lemma record_result_phone [simp]:
  "outcome_phone (record_result result msg) = Some (sms_phone msg)"
  by (cases result) (simp_all add: record_result_def)


text \<open>
  C6. For every list of messages the bulk sender returns one record per message, in
  the order of the input, and each record carries the phone of its message and is
  determined by the result of that message's own task alone: what the task returned,
  or the failure made from the exception it raised. No result of one message affects
  the record of another or ends the loop over the batches.
\<close>

theorem send_bulk_sms_outcomes:
  "length (send_bulk_sms_with task msgs) = length msgs
   \<and> (\<forall>k < length msgs.
         send_bulk_sms_with task msgs ! k = record_result (task k (msgs ! k)) (msgs ! k)
       \<and> outcome_phone (send_bulk_sms_with task msgs ! k) = Some (sms_phone (msgs ! k)))
   \<and> length (send_bulk_sms provider env msgs) = length msgs
   \<and> (\<forall>k < length msgs.
         send_bulk_sms provider env msgs ! k
           = (send_sms provider (env k) (sms_phone (msgs ! k)))
               \<lparr>outcome_phone := Some (sms_phone (msgs ! k))\<rparr>)"
proof -
  have "send_bulk_sms_with task msgs ! k = record_result (task k (msgs ! k)) (msgs ! k)"
    if "k < length msgs" for k and task :: "nat \<Rightarrow> sms \<Rightarrow> string + outcome"
    using that by (simp add: send_bulk_sms_with_eq nth_enumerate_eq)
  then show ?thesis
    by (simp add: send_bulk_sms_def send_bulk_sms_with_eq) (simp add: record_result_def)
qed

text \<open>
  An instance: of ten messages through Twilio, the call for the seventh times out. Ten
  records come back, the seventh a failure with the text of the timeout, the others
  accepted, each with the phone of its message.
\<close>

lemma valid_phones: "list_all validate_phone_number ten_phones"
  by (simp add: ten_phones_def validate_phone_number_def is_digit_def Let_def)


lemma ten_messages_simps:
  "length ten_messages = 10"
  "map sms_phone ten_messages = ten_phones"
  by (simp_all add: ten_messages_def ten_phones_def)

theorem send_bulk_sms_outcomes_witness:
  "length (send_bulk_sms TWILIO timeout_at_7 ten_messages) = 10
   \<and> map success (send_bulk_sms TWILIO timeout_at_7 ten_messages)
       = [True, True, True, True, True, True, False, True, True, True]
   \<and> map outcome_phone (send_bulk_sms TWILIO timeout_at_7 ten_messages) = map Some ten_phones
   \<and> outcome_error (send_bulk_sms TWILIO timeout_at_7 ten_messages ! 6)
       = Some ''Twilio API Error: timeout''"
proof -
  let ?r = "send_bulk_sms TWILIO timeout_at_7 ten_messages"
  have len: "length ?r = 10"
    using send_bulk_sms_outcomes[of "\<lambda>k msg. Inl []" ten_messages TWILIO timeout_at_7]
    by (simp add: ten_messages_simps)
  have nth: "?r ! k = (send_sms TWILIO (timeout_at_7 k) (ten_phones ! k))
               \<lparr>outcome_phone := Some (ten_phones ! k)\<rparr>" if "k < 10" for k
  proof -
    have "sms_phone (ten_messages ! k) = ten_phones ! k"
      using that ten_messages_simps by (metis nth_map)
    then show ?thesis
      using send_bulk_sms_outcomes[of "\<lambda>k msg. Inl []" ten_messages TWILIO timeout_at_7] that
      by (simp add: ten_messages_simps)
  qed
  have valid: "validate_phone_number (ten_phones ! k)" if "k < 10" for k
    using valid_phones that by (simp add: list_all_length ten_phones_def)
  have r: "?r = map (\<lambda>k. ?r ! k) [0..<10]"
    using len map_nth[of ?r] by simp
  have r': "?r = map (\<lambda>k. (send_via_twilio (timeout_at_7 k))\<lparr>outcome_phone := Some (ten_phones ! k)\<rparr>)
                  [0..<10]"
    by (subst r) (simp add: nth valid send_sms_def cong: map_cong)
  have ten: "[0..<10] = [0, 1, 2, 3, 4, 5, 6, 7, 8, 9 :: nat]"
    by code_simp
  show ?thesis
    unfolding r' ten
    by (simp add: send_via_twilio_def timeout_at_7_def sent_outcome_def failed_outcome_def
        ten_phones_def)
qed


section \<open>The scenario of 200 contacts\<close>

subsection \<open>In binary64\<close>


lemma rate_a_64: "binary64 (20 / 100) = 3602879701896397 / 18014398509481984"
  by (subst binary64_below_one[where n = 3]) (simp_all add: round_half_even_def Let_def)

lemma rate_b_64: "binary64 (35 / 100) = 3152519739159347 / 9007199254740992"
  by (subst binary64_below_one[where n = 2]) (simp_all add: round_half_even_def Let_def)

lemma diff_64:
  "binary64 (3152519739159347 / 9007199254740992 - 3602879701896397 / 18014398509481984)
     = 2702159776422297 / 18014398509481984"
  by (subst binary64_below_one[where n = 3]) (simp_all add: round_half_even_def Let_def)

lemma quotient_64:
  "binary64 ((2702159776422297 / 18014398509481984) / (3602879701896397 / 18014398509481984))
     = 3377699720527871 / 4503599627370496"
  by (subst binary64_below_one[where n = 1]) (simp_all add: round_half_even_def Let_def)

lemma product_64:
  "binary64 (3377699720527871 / 4503599627370496 * 100) = 2638827906662399 / 35184372088832"
  by (subst binary64_above_one[where n = 6]) (simp_all add: round_half_even_def Let_def)


subsection \<open>In exact arithmetic\<close>


lemma z_100_100_20_35:
  "(35 / 100 - 20 / 100) / sqrt (319 / 80000) / sqrt 2 = 30 / sqrt (319 :: real)"
proof -
  have "((35 / 100 - 20 / 100) / sqrt (319 / 80000) / sqrt 2)\<^sup>2 = (30 / sqrt (319 :: real))\<^sup>2"
    by (simp add: power_divide power_mult_distrib)
  moreover have "0 \<le> (35 / 100 - 20 / 100) / sqrt (319 / 80000) / sqrt (2 :: real)" by simp
  moreover have "0 \<le> 30 / sqrt (319 :: real)" by simp
  ultimately show ?thesis by (metis power2_eq_iff_nonneg)
qed

lemma p_value_100_100_20_35:
  "standard_error 100 100 20 35 = Inr (sqrt (319 / 80000))"
  "p_value_of (z_score_of (rate 20 100) (rate 35 100) (sqrt (319 / 80000)))
     = 1 - math_erf (30 / sqrt 319)"
proof -
  show "standard_error 100 100 20 35 = Inr (sqrt (319 / 80000))"
    by (simp add: standard_error_def raising_def py_truediv_def math_sqrt_def)
  have zs: "z_score_of (rate 20 100) (rate 35 100) (sqrt (319 / 80000))
              = (35 / 100 - 20 / 100) / sqrt (319 / 80000)"
    by (simp add: z_score_of_def rate_def)
  have ab: "\<bar>(35 / 100 - 20 / 100) / sqrt (319 / 80000 :: real)\<bar>
              = (35 / 100 - 20 / 100) / sqrt (319 / 80000)"
    by (rule abs_of_nonneg) simp
  have "p_value_of (z_score_of (rate 20 100) (rate 35 100) (sqrt (319 / 80000)))
        = 2 * (1 - 0.5 * (1 + math_erf (30 / sqrt 319)))"
    unfolding p_value_of_def normal_cdf_def zs ab z_100_100_20_35 ..
  also have "\<dots> = 1 - math_erf (30 / sqrt 319)" by (simp add: algebra_simps)
  finally show "p_value_of (z_score_of (rate 20 100) (rate 35 100) (sqrt (319 / 80000)))
     = 1 - math_erf (30 / sqrt 319)" .
qed

lemma compute_analysis_100_100_20_35:
  "\<exists>a. compute_analysis 0.95 100 100 20 35 = Inr a \<and> winner a = Some ''B''
       \<and> analysis_statistical_significance a < 0.05 \<and> improvement_percentage a = 75
       \<and> variant_a_rate a = 0.2 \<and> variant_b_rate a = 0.35"
proof -
  have sig: "1 - math_erf (30 / sqrt 319) < 1 - 0.95"
    using erf_30_sqrt_319 by simp
  have r: "rate 20 100 = 1 / 5" "rate 35 100 = 7 / 20" by (simp_all add: rate_def)
  have sq: "math_sqrt (7 / 20) = Inr (sqrt (7 / 20))" "math_sqrt (1 / 5) = Inr (sqrt (1 / 5))"
    by (simp_all add: math_sqrt_def)
  have asn: "math_asin (sqrt (7 / 20)) = Inr (arcsin (sqrt (7 / 20)))"
    "math_asin (sqrt (1 / 5)) = Inr (arcsin (sqrt (1 / 5)))"
  proof -
    have "0 \<le> sqrt (7 / 20 :: real)" "0 \<le> sqrt (1 / 5 :: real)" by simp_all
    moreover have "sqrt (7 / 20 :: real) \<le> 1" "sqrt (1 / 5 :: real) \<le> 1" by simp_all
    ultimately have "\<not> sqrt (7 / 20 :: real) < - 1" "\<not> 1 < sqrt (7 / 20 :: real)"
      "\<not> sqrt (1 / 5 :: real) < - 1" "\<not> 1 < sqrt (1 / 5 :: real)"
      by linarith+
    then show "math_asin (sqrt (7 / 20)) = Inr (arcsin (sqrt (7 / 20)))"
      "math_asin (sqrt (1 / 5)) = Inr (arcsin (sqrt (1 / 5)))"
      unfolding math_asin_def by (simp_all only: simp_thms if_False)
  qed
  have w: "determine_winner True (1 / 5) (7 / 20) = Inr (Some ''B'', 75)"
    by (simp add: determine_winner_def py_truediv_def raising_def)
  have pv: "p_value_of (z_score_of (1 / 5) (7 / 20) (sqrt (319 / 80000)))
              = 1 - math_erf (30 / sqrt 319)"
    using p_value_100_100_20_35(2) by (simp only: r)
  show ?thesis
    using sig
    by (simp add: compute_analysis_def Let_def p_value_100_100_20_35(1) raising_def r sq asn
        pv w)
qed



lemma improvement_binary64_value:
  "improvement_binary64 20 100 35 100 = 2638827906662399 / 35184372088832"
  unfolding improvement_binary64_def Let_def
  by (simp only: of_int_numeral rate_a_64 rate_b_64 diff_64 quotient_64 product_64)

lemma split_point_200:
  "split_point_of (draft_test 0.5 100) (population 200) = 100"
proof -
  have "binary64 100 = 100"
    by (subst binary64_above_one[where n = 6]) (simp_all add: round_half_even_def Let_def)
  then show ?thesis
    by (simp add: split_point_of_def py_int_def)
qed

lemma started_200:
  "\<exists>s1. start_ab_test rnd now 1 1 (draft_session 0.5 100 200)
           = (Inr ''A/B test started successfully'', s1)
     \<and> committed s1 = working s1
     \<and> ab_test_campaigns (working s1)
         = [(draft_test 0.5 100)\<lparr>test_status := RUNNING, started_at := Some now,
               variant_a_recipients := 100, variant_b_recipients := 100\<rparr>]"
  using started_counts[OF split_point_200, of rnd now] by simp

text \<open>
  The scenario as the service runs it: the test is started, the opens are recorded and
  the test is analysed while it runs. The statistics are computed, but the duration of
  the running test is not: the analysis answers with the failure of a \<open>TypeError\<close> and
  stores nothing.
\<close>

lemma scenario_200_running:
  "\<exists>s1 s2.
       start_ab_test rnd now1 1 1 (draft_session 0.5 100 200)
         = (Inr ''A/B test started successfully'', s1)
     \<and> update_ab_test_metrics 1 [(''variant_a_opened'', 20), (''variant_b_opened'', 35)] s1
         = (Inr (), s2)
     \<and> analyze_ab_test now2 1 s2 = (Inl (Raised TypeError), s2)"
proof -
  obtain s1 where s1: "start_ab_test rnd now1 1 1 (draft_session 0.5 100 200)
           = (Inr ''A/B test started successfully'', s1)"
     "committed s1 = working s1"
     "ab_test_campaigns (working s1)
         = [(draft_test 0.5 100)\<lparr>test_status := RUNNING, started_at := Some now1,
               variant_a_recipients := 100, variant_b_recipients := 100\<rparr>]"
    using started_200 by blast
  let ?c1 = "(draft_test 0.5 100)\<lparr>test_status := RUNNING, started_at := Some now1,
               variant_a_recipients := 100, variant_b_recipients := 100\<rparr>"
  let ?m = "[(''variant_a_opened'', 20), (''variant_b_opened'', 35)]"
  let ?c2 = "calculate_conversion_rates (set_metrics ?m ?c1)"
  have f1: "first (\<lambda>c. test_id c = 1) (ab_test_campaigns (working s1)) = Some ?c1"
    by (simp add: s1(3) first_def)
  obtain s2 where s2: "update_ab_test_metrics 1 ?m s1 = (Inr (), s2)"
    "committed s2 = working s2"
    "first (\<lambda>c. test_id c = 1) (ab_test_campaigns (committed s2)) = Some ?c2"
    using update_ab_test_metrics_found[OF f1] by blast
  have c2: "confidence_level ?c2 = 0.95" "variant_a_recipients ?c2 = 100"
    "variant_b_recipients ?c2 = 100" "variant_a_opened ?c2 = 20" "variant_b_opened ?c2 = 35"
    "started_at ?c2 = Some now1" "completed_at ?c2 = None"
    by (simp_all add: calculate_conversion_rates_def set_metrics_def setattr_campaign_def
        Let_def draft_test_def new_campaign_def sample_test_data_def)
  obtain a where a: "compute_analysis 0.95 100 100 20 35 = Inr a"
    using compute_analysis_100_100_20_35 by blast
  have f2: "first (\<lambda>c. test_id c = 1) (ab_test_campaigns (working s2)) = Some ?c2"
    using s2(2,3) by simp
  have "analyze_ab_test now2 1 s2 = (Inl (Raised TypeError), s2)"
    by (rule analyze_ab_test_running[OF f2, where a = a]) (simp_all only: c2 a, simp_all)
  then show ?thesis
    using s1(1) s2(1) by blast
qed

text \<open>
  C1, in both arithmetics, for a test whose duration the analysis can compute. A test
  with traffic split 0.5, minimum sample size 100 and confidence level 0.95 is started
  over 200 contacts: both variants get 100 recipients. For a test with 100 recipients
  per variant, 20 opens for A, 35 for B and confidence level 0.95 that has not been
  started or has been completed, the analysis reports the rates 0.2 and 0.35, the
  winner \<open>"B"\<close> and a p-value below 0.05; its improvement percentage is 75 in exact
  arithmetic and \<open>75 - 1 / 2 ^ 45\<close>, printed 74.99999999999997, in the binary64
  arithmetic of the interpreter.
\<close>

theorem scenario_200_contacts:
  assumes "first (\<lambda>c. test_id c = cid) (ab_test_campaigns (working s)) = Some campaign"
    and "variant_a_recipients campaign = 100" and "variant_b_recipients campaign = 100"
    and "variant_a_opened campaign = 20" and "variant_b_opened campaign = 35"
    and "confidence_level campaign = 0.95"
    and "started_at campaign = None \<or> completed_at campaign \<noteq> None"
  shows "\<exists>s1 a.
       start_ab_test rnd now1 1 1 (draft_session 0.5 100 200)
         = (Inr ''A/B test started successfully'', s1)
     \<and> map variant_a_recipients (ab_test_campaigns (committed s1)) = [100]
     \<and> map variant_b_recipients (ab_test_campaigns (committed s1)) = [100]
     \<and> fst (analyze_ab_test now2 cid s) = Inr a
     \<and> variant_a_rate a = 0.2 \<and> variant_b_rate a = 0.35
     \<and> winner a = Some ''B''
     \<and> analysis_statistical_significance a < 0.05
     \<and> improvement_percentage a = 75
     \<and> improvement_binary64 20 100 35 100 = 75 - 1 / 2 ^ 45"
proof -
  obtain s1 where s1: "start_ab_test rnd now1 1 1 (draft_session 0.5 100 200)
           = (Inr ''A/B test started successfully'', s1)"
     "committed s1 = working s1"
     "ab_test_campaigns (working s1)
         = [(draft_test 0.5 100)\<lparr>test_status := RUNNING, started_at := Some now1,
               variant_a_recipients := 100, variant_b_recipients := 100\<rparr>]"
    using started_200 by blast
  obtain a where a: "compute_analysis 0.95 100 100 20 35 = Inr a" "winner a = Some ''B''"
    "analysis_statistical_significance a < 0.05" "improvement_percentage a = 75"
    "variant_a_rate a = 0.2" "variant_b_rate a = 0.35"
    using compute_analysis_100_100_20_35 by blast
  have "fst (analyze_ab_test now2 cid s) = Inr a"
    using analyze_ab_test_found[OF assms(1) _ _ assms(7), of now2] a(1)
    by (simp add: assms(2-6))
  moreover have "improvement_binary64 20 100 35 100 = 75 - 1 / 2 ^ 45"
    by (simp add: improvement_binary64_value)
  ultimately show ?thesis
    using s1 a(2-6) by (auto simp: s1(2))
qed

theorem scenario_200_contacts_witness:
  "\<exists>s1 a.
       start_ab_test (\<lambda>i. 0) 0 1 1 (draft_session 0.5 100 200)
         = (Inr ''A/B test started successfully'', s1)
     \<and> map variant_a_recipients (ab_test_campaigns (committed s1)) = [100]
     \<and> map variant_b_recipients (ab_test_campaigns (committed s1)) = [100]
     \<and> fst (analyze_ab_test 86400 1 (finished_session 0.95 100 100 20 35)) = Inr a
     \<and> variant_a_rate a = 0.2 \<and> variant_b_rate a = 0.35
     \<and> winner a = Some ''B''
     \<and> analysis_statistical_significance a < 0.05
     \<and> improvement_percentage a = 75
     \<and> improvement_binary64 20 100 35 100 = 75 - 1 / 2 ^ 45"
  using scenario_200_contacts[OF first_finished[of "0.95" 100 100 20 35],
      where rnd = "\<lambda>i. 0" and ?now1.0 = 0 and ?now2.0 = 86400]
  by (simp add: finished_test_simps)

text \<open>
  In binary64 the improvement percentage of the scenario is not 75: the difference of
  the two rounded rates is already below 0.15.
\<close>

theorem improvement_binary64_not_75:
  "improvement_binary64 20 100 35 100 \<noteq> 75"
  by (simp add: improvement_binary64_value)


end
